theory Spec2Isabelle
  imports Complex_Main
begin

section \<open>Strings\<close>

text \<open>
  A JavaScript string is a sequence of UTF-16 code units, numbers below 65536. The model
  keeps them as natural numbers: \<open>slice(0, n)\<close> is \<^const>\<open>take\<close> on code units,
  \<open>replace(/-/g, '')\<close> removes every code unit \<open>0x2D\<close>, \<open>+\<close> is \<^const>\<open>append\<close>. The
  string constants of the program are ASCII and written \<open>js ''...''\<close>.
\<close>

type_synonym jsstring = "nat list"

definition js :: "string \<Rightarrow> jsstring" where
  "js s = map of_char s"

text \<open>
  \<open>String.prototype.trim\<close> removes from both ends the code points the language calls
  white space and line terminators: tab, line feed, vertical tab, form feed, carriage
  return, the byte order mark \<open>U+FEFF\<close>, the separators \<open>U+2028\<close> and \<open>U+2029\<close>, and the
  Unicode space separators (space, \<open>U+00A0\<close>, \<open>U+1680\<close>, \<open>U+2000\<close> to \<open>U+200A\<close>,
  \<open>U+202F\<close>, \<open>U+205F\<close>, \<open>U+3000\<close>). All of them are single code units.
\<close>

definition isWhiteSpace :: "nat \<Rightarrow> bool" where
  "isWhiteSpace c =
     (c \<in> set [0x09, 0x0A, 0x0B, 0x0C, 0x0D, 0x20, 0xA0, 0x1680, 0x2028, 0x2029, 0x202F,
                0x205F, 0x3000, 0xFEFF] \<or>
      (0x2000 \<le> c \<and> c \<le> 0x200A))"

definition trim :: "jsstring \<Rightarrow> jsstring" where
  "trim s = rev (dropWhile isWhiteSpace (rev (dropWhile isWhiteSpace s)))"

text \<open>The JavaScript idiom \<open>x || d\<close> for an optional string: \<open>undefined\<close> and the empty
  string are falsy.\<close>

definition orElse :: "jsstring option \<Rightarrow> jsstring \<Rightarrow> jsstring" where
  "orElse x d = (case x of None \<Rightarrow> d | Some s \<Rightarrow> if s = [] then d else s)"


section \<open>Data model (types.ts)\<close>

datatype ShipmentStatus = CREATED | IN_TRANSIT | DELIVERED | DELAYED | CANCELLED

record Shipment =
  shipmentId :: jsstring
  orderId :: jsstring
  carrier :: jsstring
  trackingNumber :: jsstring
  status :: ShipmentStatus
  cancelledAt :: "jsstring option"

datatype Priority = LOW | NORMAL | HIGH

record AnalyticsNotificationEvent =
  notificationId :: jsstring
  n_requestId :: jsstring
  n_title :: jsstring
  n_body :: jsstring
  n_priority :: Priority

record DispatchCommandEvent =
  c_messageId :: jsstring
  c_requestId :: jsstring
  c_orderId :: jsstring
  c_carrier :: jsstring
  c_requestedAt :: jsstring

datatype ReplyStatus = ACCEPTED | REJECTED | PARTIAL

record FulfillmentReplyEvent =
  r_messageId :: jsstring
  r_requestId :: jsstring
  r_orderId :: jsstring
  r_status :: ReplyStatus
  r_repliedAt :: jsstring
  r_trackingId :: "jsstring option"
  r_rejectionReason :: "jsstring option"


section \<open>JSON values\<close>

text \<open>
  The values \<open>JSON.parse\<close> and the body parser hand to the code. A number carries the
  value of the double it was parsed to; an object is its list of own properties.
\<close>

datatype json =
    JNull
  | JBool bool
  | JNum rat
  | JStr jsstring
  | JArr "json list"
  | JObj "(jsstring \<times> json) list"

text \<open>JavaScript truthiness: \<open>null\<close>, \<open>false\<close>, \<open>0\<close> and \<open>''\<close> are falsy.\<close>

fun truthy :: "json \<Rightarrow> bool" where
  "truthy JNull = False"
| "truthy (JBool b) = b"
| "truthy (JNum n) = (n \<noteq> 0)"
| "truthy (JStr s) = (s \<noteq> [])"
| "truthy (JArr xs) = True"
| "truthy (JObj fs) = True"

text \<open>\<open>typeof v === 'object'\<close> holds of \<open>null\<close>, arrays and objects.\<close>

fun typeofObject :: "json \<Rightarrow> bool" where
  "typeofObject JNull = True"
| "typeofObject (JArr xs) = True"
| "typeofObject (JObj fs) = True"
| "typeofObject v = False"

fun isArray :: "json \<Rightarrow> bool" where
  "isArray (JArr xs) = True"
| "isArray v = False"

text \<open>Reading the property \<open>k\<close> of a value that is neither \<open>null\<close> nor \<open>undefined\<close>;
  \<open>None\<close> is \<open>undefined\<close>. Only objects carry the properties the service reads.\<close>

fun getProp :: "json \<Rightarrow> jsstring \<Rightarrow> json option" where
  "getProp (JObj fs) k = map_of fs k"
| "getProp v k = None"

text \<open>\<open>typeof x === 'string' ? x : undefined\<close>.\<close>

fun asString :: "json option \<Rightarrow> jsstring option" where
  "asString (Some (JStr s)) = Some s"
| "asString x = None"

definition typeofString :: "json option \<Rightarrow> bool" where
  "typeofString x = (asString x \<noteq> None)"


section \<open>The runtime\<close>

text \<open>
  Functions of the JavaScript runtime and configuration the service reads are parameters
  of the model: \<open>JSON.parse\<close> (\<open>None\<close> when it throws a \<open>SyntaxError\<close>), \<open>Date.parse\<close>
  (\<open>None\<close> when it returns \<open>NaN\<close>, otherwise the milliseconds), \<open>decodeURIComponent\<close>
  (\<open>None\<close> when it throws a \<open>URIError\<close>), the upper-case mapping of the Unicode character
  database (a code point to its upper-case code points; read for code points outside
  ASCII only), the two topic names and the broker URL. The values returned by
  \<open>randomUUID()\<close> and \<open>new Date().toISOString()\<close> are arguments of each operation, in the
  order the operation asks for them.
\<close>

record runtime =
  JSON_parse :: "jsstring \<Rightarrow> json option"
  Date_parse :: "jsstring \<Rightarrow> int option"
  decodeURIComponent :: "jsstring \<Rightarrow> jsstring option"
  Uppercase_Mapping :: "nat \<Rightarrow> nat list"
  fulfillmentReplyTopic :: jsstring
  analyticsNotificationTopic :: jsstring
  analyticsMqttUrl :: jsstring

datatype exn = URIError | SendFailed jsstring


section \<open>Case conversion and tracking numbers\<close>

text \<open>
  \<open>String.prototype.toUpperCase\<close> reads the string as code points (a leading surrogate
  followed by a trailing surrogate is one code point, every other code unit is its own),
  maps each code point to its upper-case code points, and writes the result back as
  UTF-16. The mapping has no context. On ASCII it maps \<open>a..z\<close> to \<open>A..Z\<close> and nothing
  else; above ASCII it is the table of the runtime.
\<close>

definition isLeadingSurrogate :: "nat \<Rightarrow> bool" where
  "isLeadingSurrogate c = (0xD800 \<le> c \<and> c \<le> 0xDBFF)"

definition isTrailingSurrogate :: "nat \<Rightarrow> bool" where
  "isTrailingSurrogate c = (0xDC00 \<le> c \<and> c \<le> 0xDFFF)"

fun StringToCodePoints :: "jsstring \<Rightarrow> nat list" where
  "StringToCodePoints (h # l # rest) =
     (if isLeadingSurrogate h \<and> isTrailingSurrogate l
      then (0x10000 + (h - 0xD800) * 0x400 + (l - 0xDC00)) # StringToCodePoints rest
      else h # StringToCodePoints (l # rest))"
| "StringToCodePoints cs = cs"

definition UTF16EncodeCodePoint :: "nat \<Rightarrow> jsstring" where
  "UTF16EncodeCodePoint cp =
     (if cp \<le> 0xFFFF then [cp]
      else [0xD800 + (cp - 0x10000) div 0x400, 0xDC00 + (cp - 0x10000) mod 0x400])"

definition asciiUpper :: "nat \<Rightarrow> nat" where
  "asciiUpper c = (if 0x61 \<le> c \<and> c \<le> 0x7A then c - 0x20 else c)"

definition toUppercase :: "runtime \<Rightarrow> nat \<Rightarrow> nat list" where
  "toUppercase rt cp = (if cp < 0x80 then [asciiUpper cp] else Uppercase_Mapping rt cp)"

definition toUpperCase :: "runtime \<Rightarrow> jsstring \<Rightarrow> jsstring" where
  "toUpperCase rt s =
     concat (map UTF16EncodeCodePoint (concat (map (toUppercase rt) (StringToCodePoints s))))"

text \<open>\<open>makeTrackingNumber\<close> (index.ts, line 124).\<close>

definition makeTrackingNumber :: "runtime \<Rightarrow> jsstring \<Rightarrow> jsstring" where
  "makeTrackingNumber rt sid =
     js ''TRK-'' @ toUpperCase rt (take 12 (filter (\<lambda>c. c \<noteq> 0x2D) sid))"

text \<open>
  The shape of the values \<open>randomUUID()\<close> returns: 36 characters, lower-case hexadecimal
  digits in groups of 8, 4, 4, 4 and 12, separated by dashes.
\<close>

definition isHexLower :: "nat \<Rightarrow> bool" where
  "isHexLower c = (c \<in> set (js ''0123456789abcdef''))"

definition isHexUpper :: "nat \<Rightarrow> bool" where
  "isHexUpper c = (c \<in> set (js ''0123456789ABCDEF''))"

definition isUUID :: "jsstring \<Rightarrow> bool" where
  "isUUID u =
     (length u = 36 \<and>
      list_all isHexLower (take 8 u) \<and> u ! 8 = 0x2D \<and>
      list_all isHexLower (take 4 (drop 9 u)) \<and> u ! 13 = 0x2D \<and>
      list_all isHexLower (take 4 (drop 14 u)) \<and> u ! 18 = 0x2D \<and>
      list_all isHexLower (take 4 (drop 19 u)) \<and> u ! 23 = 0x2D \<and>
      list_all isHexLower (drop 24 u))"

text \<open>The pattern \<open>TRK-\<close> followed by exactly twelve upper-case hexadecimal characters.\<close>

definition matchesTrackingPattern :: "jsstring \<Rightarrow> bool" where
  "matchesTrackingPattern s =
     (take 4 s = js ''TRK-'' \<and> length s = 16 \<and> list_all isHexUpper (drop 4 s))"


section \<open>The shipment store\<close>

text \<open>
  \<open>shipments\<close> is a JavaScript \<open>Map\<close>: keyed, iterated in insertion order, and \<open>set\<close> on a
  present key replaces the value in place.
\<close>

type_synonym store = "(jsstring \<times> Shipment) list"

definition shipments_get :: "store \<Rightarrow> jsstring \<Rightarrow> Shipment option" where
  "shipments_get st k = map_of st k"

fun shipments_set :: "store \<Rightarrow> jsstring \<Rightarrow> Shipment \<Rightarrow> store" where
  "shipments_set [] k v = [(k, v)]"
| "shipments_set ((k', v') # rest) k v =
     (if k' = k then (k, v) # rest else (k', v') # shipments_set rest k v)"

definition shipments_values :: "store \<Rightarrow> Shipment list" where
  "shipments_values st = map snd st"

definition shipments_keys :: "store \<Rightarrow> jsstring list" where
  "shipments_keys st = map fst st"

definition toShipmentView :: "Shipment \<Rightarrow> Shipment" where
  "toShipmentView shipment =
     \<lparr> shipmentId = shipmentId shipment,
       orderId = orderId shipment,
       carrier = carrier shipment,
       trackingNumber = trackingNumber shipment,
       status = status shipment,
       cancelledAt = None \<rparr>"

definition buildDefaultShipment :: "runtime \<Rightarrow> jsstring \<Rightarrow> Shipment" where
  "buildDefaultShipment rt sid =
     \<lparr> shipmentId = sid,
       orderId = js ''order-'' @ sid,
       carrier = js ''ACME_SHIP'',
       trackingNumber = makeTrackingNumber rt sid,
       status = IN_TRANSIT,
       cancelledAt = None \<rparr>"

text \<open>\<open>shipments.get(shipmentId) || buildDefaultShipment(shipmentId)\<close>.\<close>

definition getOrDefault :: "runtime \<Rightarrow> store \<Rightarrow> jsstring \<Rightarrow> Shipment" where
  "getOrDefault rt st sid =
     (case shipments_get st sid of Some s \<Rightarrow> s | None \<Rightarrow> buildDefaultShipment rt sid)"


section \<open>HTTP routes (index.ts)\<close>

datatype ResponseBody =
    ShipmentBody Shipment
  | ShipmentsBody "Shipment list"
  | ErrorBody jsstring

record Response =
  statusCode :: nat
  resBody :: ResponseBody

text \<open>
  A route handler returns the response it sends, the store it leaves and the notification
  events it handed to \<open>publishAnalyticsNotification\<close>.
\<close>

type_synonym outcome = "Response \<times> store \<times> AnalyticsNotificationEvent list"

text \<open>
  \<open>app.post('/shipments')\<close> (line 148). \<open>reqBody\<close> is \<open>req.body\<close> (\<open>None\<close> when
  undefined), \<open>uuid1\<close> the shipment id drawn and \<open>uuid2\<close> the notification id. Nothing in
  the \<open>try\<close> block throws, hence the \<open>catch\<close> clause has no branch here.
\<close>

definition postShipments :: "runtime \<Rightarrow> store \<Rightarrow> json option \<Rightarrow> jsstring \<Rightarrow> jsstring \<Rightarrow> outcome" where
  "postShipments rt shipments reqBody uuid1 uuid2 =
     (let payload = (case reqBody of None \<Rightarrow> JObj [] | Some b \<Rightarrow> if truthy b then b else JObj []);
          orderId' = (case asString (getProp payload (js ''orderId'')) of
                        Some s \<Rightarrow> trim s | None \<Rightarrow> []);
          destinationPostalCode = (case asString (getProp payload (js ''destinationPostalCode'')) of
                        Some s \<Rightarrow> trim s | None \<Rightarrow> [])
      in if orderId' = [] then
           (\<lparr> statusCode = 400, resBody = ErrorBody (js ''orderId must be a non-empty string'') \<rparr>,
            shipments, [])
         else if destinationPostalCode = [] then
           (\<lparr> statusCode = 400,
              resBody = ErrorBody (js ''destinationPostalCode must be a non-empty string'') \<rparr>,
            shipments, [])
         else
           (let shipment = \<lparr> shipmentId = uuid1, orderId = orderId', carrier = js ''ACME_SHIP'',
                              trackingNumber = makeTrackingNumber rt uuid1, status = CREATED,
                              cancelledAt = None \<rparr>
            in (\<lparr> statusCode = 201, resBody = ShipmentBody (toShipmentView shipment) \<rparr>,
                shipments_set shipments uuid1 shipment,
                [\<lparr> notificationId = uuid2, n_requestId = uuid1, n_title = js ''ShipmentCreated'',
                   n_body = js ''Shipment '' @ uuid1 @ js '' created for order '' @ orderId',
                   n_priority = NORMAL \<rparr>])))"

text \<open>The body of a request as the JSON body parser leaves it: rejected, or parsed into
  \<open>req.body\<close> (\<open>None\<close> when undefined).\<close>

datatype RequestBody = Unparsable | Parsed "json option"

text \<open>
  Modelled from the spec: the JSON body parser in front of the handler (\<open>express.json\<close>,
  a library, not part of the sources). The spec (section 6) gives its contract: a body
  that cannot be parsed is answered with 400 and an error object, and the handler does
  not run. The message is the one the plain-HTTP variant of the service uses in its own
  \<open>parseBody\<close>.
\<close>

definition postShipmentsRoute :: "runtime \<Rightarrow> store \<Rightarrow> RequestBody \<Rightarrow> jsstring \<Rightarrow> jsstring \<Rightarrow> outcome" where
  "postShipmentsRoute rt shipments body uuid1 uuid2 =
     (case body of
        Unparsable \<Rightarrow>
          (\<lparr> statusCode = 400, resBody = ErrorBody (js ''Invalid JSON body'') \<rparr>, shipments, [])
      | Parsed reqBody \<Rightarrow> postShipments rt shipments reqBody uuid1 uuid2)"

text \<open>\<open>app.get('/shipments/:shipmentId')\<close> (line 188). A \<open>URIError\<close> of
  \<open>decodeURIComponent\<close> leaves the handler as an exception.\<close>

definition getShipment :: "runtime \<Rightarrow> store \<Rightarrow> jsstring \<Rightarrow> exn + outcome" where
  "getShipment rt shipments param =
     (case decodeURIComponent rt param of
        None \<Rightarrow> Inl URIError
      | Some sid \<Rightarrow>
          Inr (\<lparr> statusCode = 200,
                 resBody = ShipmentBody (toShipmentView (getOrDefault rt shipments sid)) \<rparr>,
               shipments, []))"

text \<open>\<open>app.get('/shipments')\<close> (line 194). The query parameter \<open>orderId\<close> is absent, a
  string, or something else (an array or an object of the query parser).\<close>

datatype QueryParam = QAbsent | QString jsstring | QOther

definition listShipments :: "runtime \<Rightarrow> store \<Rightarrow> QueryParam \<Rightarrow> jsstring \<Rightarrow> jsstring \<Rightarrow> outcome" where
  "listShipments rt shipments q uuid1 uuid2 =
     (let orderId' = (case q of QString s \<Rightarrow> Some s | _ \<Rightarrow> None);
          list0 = shipments_values shipments;
          list1 = (if length list0 = 0 then
                     [\<lparr> shipmentId = uuid1, orderId = orElse orderId' (js ''order-default''),
                        carrier = js ''ACME_SHIP'', trackingNumber = makeTrackingNumber rt uuid2,
                        status = IN_TRANSIT, cancelledAt = None \<rparr>]
                   else list0);
          filtered = (case orderId' of
                        None \<Rightarrow> list1
                      | Some s \<Rightarrow>
                          if s \<noteq> [] then filter (\<lambda>shipment. orderId shipment = s) list1
                          else list1)
      in (\<lparr> statusCode = 200, resBody = ShipmentsBody (map toShipmentView filtered) \<rparr>,
          shipments, []))"

text \<open>\<open>app.post('/shipments/:shipmentId/cancel')\<close> (line 212). \<open>now\<close> is
  \<open>new Date().toISOString()\<close>, \<open>uuid1\<close> the notification id.\<close>

definition cancelShipment :: "runtime \<Rightarrow> store \<Rightarrow> jsstring \<Rightarrow> jsstring \<Rightarrow> jsstring \<Rightarrow> exn + outcome" where
  "cancelShipment rt shipments param now uuid1 =
     (case decodeURIComponent rt param of
        None \<Rightarrow> Inl URIError
      | Some sid \<Rightarrow>
          (let existing = getOrDefault rt shipments sid;
               cancelled = existing \<lparr> status := CANCELLED, cancelledAt := Some now \<rparr>
           in Inr (\<lparr> statusCode = 200, resBody = ShipmentBody (toShipmentView cancelled) \<rparr>,
                   shipments_set shipments sid cancelled,
                   [\<lparr> notificationId = uuid1, n_requestId = sid, n_title = js ''ShipmentCancelled'',
                      n_body = js ''Shipment '' @ sid @ js '' cancelled'', n_priority = NORMAL \<rparr>])))"


section \<open>The dispatch command consumer (index.ts)\<close>

text \<open>\<open>isDispatchCommandEvent\<close> (line 42).\<close>

definition isDispatchCommandEvent :: "json \<Rightarrow> bool" where
  "isDispatchCommandEvent v =
     (if \<not> truthy v \<or> \<not> typeofObject v \<or> isArray v then False
      else typeofString (getProp v (js ''messageId'')) \<and>
           typeofString (getProp v (js ''requestId'')) \<and>
           typeofString (getProp v (js ''orderId'')) \<and>
           typeofString (getProp v (js ''carrier'')) \<and>
           typeofString (getProp v (js ''requestedAt'')))"

text \<open>The narrowing \<open>const command = payload\<close>: the five fields read as strings.\<close>

definition asDispatchCommandEvent :: "json \<Rightarrow> DispatchCommandEvent option" where
  "asDispatchCommandEvent v =
     (case (asString (getProp v (js ''messageId'')), asString (getProp v (js ''requestId'')),
            asString (getProp v (js ''orderId'')), asString (getProp v (js ''carrier'')),
            asString (getProp v (js ''requestedAt''))) of
        (Some m, Some r, Some ord, Some c, Some t) \<Rightarrow>
          Some \<lparr> c_messageId = m, c_requestId = r, c_orderId = ord, c_carrier = c,
                 c_requestedAt = t \<rparr>
      | _ \<Rightarrow> None)"

text \<open>\<open>buildFulfillmentReply\<close> (line 57): \<open>uuid1\<close> is the reply's message id, \<open>now\<close> the
  time of the reply, \<open>uuid2\<close> the identifier drawn for the tracking id.\<close>

definition buildFulfillmentReply ::
    "runtime \<Rightarrow> DispatchCommandEvent \<Rightarrow> jsstring \<Rightarrow> jsstring \<Rightarrow> jsstring \<Rightarrow> FulfillmentReplyEvent" where
  "buildFulfillmentReply rt command uuid1 now uuid2 =
     (if Date_parse rt (c_requestedAt command) = None then
        \<lparr> r_messageId = uuid1, r_requestId = c_requestId command,
          r_orderId = c_orderId command, r_status = REJECTED, r_repliedAt = now,
          r_trackingId = None, r_rejectionReason = Some (js ''Invalid requestedAt'') \<rparr>
      else
        \<lparr> r_messageId = uuid1, r_requestId = c_requestId command,
          r_orderId = c_orderId command, r_status = ACCEPTED, r_repliedAt = now,
          r_trackingId = Some (makeTrackingNumber rt uuid2), r_rejectionReason = None \<rparr>)"

text \<open>A record handed to \<open>fulfillmentProducer.send\<close>: topic, key and the reply that is
  serialised as the message.\<close>

record ProducerRecord =
  p_topic :: jsstring
  p_key :: jsstring
  p_reply :: FulfillmentReplyEvent

text \<open>
  \<open>eachMessage\<close> (line 86). \<open>msg\<close> is \<open>message.value\<close> (\<open>None\<close> for \<open>null\<close>, otherwise
  the bytes of the buffer), \<open>uuid3\<close> the shipment id drawn for an accepted command and
  \<open>sendError\<close> the error the awaited \<open>send\<close> rejects with, if it does. The result is the
  store left, the records handed to \<open>send\<close> and the exception the handler ends with.
\<close>

definition eachMessage ::
    "runtime \<Rightarrow> store \<Rightarrow> jsstring option \<Rightarrow> jsstring \<Rightarrow> jsstring \<Rightarrow> jsstring \<Rightarrow> jsstring \<Rightarrow> jsstring option
      \<Rightarrow> store \<times> ProducerRecord list \<times> exn option" where
  "eachMessage rt shipments msg uuid1 now uuid2 uuid3 sendError =
     (case msg of
        None \<Rightarrow> (shipments, [], None)
      | Some bytes \<Rightarrow>
          (case JSON_parse rt bytes of
             None \<Rightarrow> (shipments, [], None)
           | Some payload \<Rightarrow>
               if \<not> isDispatchCommandEvent payload then (shipments, [], None)
               else
                 (case asDispatchCommandEvent payload of
                    None \<Rightarrow> (shipments, [], None)
                  | Some command \<Rightarrow>
                      (let reply = buildFulfillmentReply rt command uuid1 now uuid2;
                           shipments' =
                             (if r_status reply = ACCEPTED then
                                shipments_set shipments uuid3
                                  \<lparr> shipmentId = uuid3, orderId = c_orderId command,
                                    carrier = orElse (Some (c_carrier command)) (js ''ACME_SHIP''),
                                    trackingNumber =
                                      orElse (r_trackingId reply) (makeTrackingNumber rt uuid3),
                                    status = CREATED, cancelledAt = None \<rparr>
                              else shipments)
                       in (shipments',
                           [\<lparr> p_topic = fulfillmentReplyTopic rt, p_key = c_orderId command,
                              p_reply = reply \<rparr>],
                           map_option SendFailed sendError)))))"


section \<open>The notification publisher (index.ts, MQTT variant)\<close>

text \<open>
  \<open>publishAnalyticsNotification\<close> opens a client, arms a timer and registers two one-shot
  listeners, then returns to its caller. What happens later is driven by the event loop:
  the timer fires, the client connects, the callback of \<open>publish\<close> runs, or the client
  reports an error. The state of one call records the flag \<open>completed\<close>, the number of
  calls of \<open>client.end(true)\<close>, whether the timer is still armed, which listeners are
  still registered, whether a callback of \<open>publish\<close> is outstanding, the calls of
  \<open>publish\<close> and the lines written to the error log. \<open>mqtt.connect\<close> is taken to return
  a client; a broker that cannot be reached shows as the client's error event.
\<close>

record Publisher =
  payload :: AnalyticsNotificationEvent
  completed :: bool
  endCalls :: nat
  timeoutArmed :: bool
  connectListener :: bool
  errorListener :: bool
  publishOutstanding :: bool
  publishCalls :: "(jsstring \<times> AnalyticsNotificationEvent) list"
  errorLog :: "jsstring list"

datatype PublisherEvent =
    TimeoutFired
  | Connected
  | PublishCallback "jsstring option"
  | ClientError jsstring

definition publishAnalyticsNotification :: "AnalyticsNotificationEvent \<Rightarrow> Publisher" where
  "publishAnalyticsNotification event =
     \<lparr> payload = event, completed = False, endCalls = 0, timeoutArmed = True,
       connectListener = True, errorListener = True, publishOutstanding = False,
       publishCalls = [], errorLog = [] \<rparr>"

text \<open>The local function \<open>done\<close> (line 36 of the variant).\<close>

definition doneOnce :: "Publisher \<Rightarrow> Publisher" where
  "doneOnce p =
     (if completed p then p else p \<lparr> completed := True, endCalls := endCalls p + 1 \<rparr>)"

definition clearTimeout :: "Publisher \<Rightarrow> Publisher" where
  "clearTimeout p = p \<lparr> timeoutArmed := False \<rparr>"

definition logError :: "jsstring \<Rightarrow> Publisher \<Rightarrow> Publisher" where
  "logError line p = p \<lparr> errorLog := errorLog p @ [line] \<rparr>"

text \<open>One turn of the event loop for one call. An event whose listener, callback or
  timer is not there has no effect.\<close>

fun publisherStep :: "runtime \<Rightarrow> Publisher \<Rightarrow> PublisherEvent \<Rightarrow> Publisher" where
  "publisherStep rt p TimeoutFired =
     (if timeoutArmed p then doneOnce (p \<lparr> timeoutArmed := False \<rparr>) else p)"
| "publisherStep rt p Connected =
     (if connectListener p then
        p \<lparr> connectListener := False, publishOutstanding := True,
            publishCalls := publishCalls p @ [(analyticsNotificationTopic rt, payload p)] \<rparr>
      else p)"
| "publisherStep rt p (PublishCallback err) =
     (if publishOutstanding p then
        (let p1 = p \<lparr> publishOutstanding := False \<rparr>;
             p2 = (case err of
                     None \<Rightarrow> p1
                   | Some m \<Rightarrow>
                       logError (js ''Failed to publish analytics notification on '' @
                                 analyticsNotificationTopic rt @ js '': '' @ m) p1)
         in doneOnce (clearTimeout p2))
      else p)"
| "publisherStep rt p (ClientError m) =
     (if errorListener p then
        doneOnce (clearTimeout
          (logError (js ''Failed to connect to analytics MQTT broker ('' @ analyticsMqttUrl rt @
                     (js ''): '') @ m)
             (p \<lparr> errorListener := False \<rparr>)))
      else p)"

definition publisherRun :: "runtime \<Rightarrow> Publisher \<Rightarrow> PublisherEvent list \<Rightarrow> Publisher" where
  "publisherRun rt p evs = foldl (publisherStep rt) p evs"

text \<open>The publish acknowledgment arrives: a callback of \<open>publish\<close> after the connect.\<close>

fun isPublishCallback :: "PublisherEvent \<Rightarrow> bool" where
  "isPublishCallback (PublishCallback err) = True"
| "isPublishCallback ev = False"

fun acknowledged :: "PublisherEvent list \<Rightarrow> bool" where
  "acknowledged [] = False"
| "acknowledged (Connected # evs) = list_ex isPublishCallback evs"
| "acknowledged (ev # evs) = acknowledged evs"


section \<open>The service as one event loop\<close>

text \<open>
  The handlers run one at a time on a single-threaded event loop. The state of the
  service is the store, the publisher calls in flight, the answers of the HTTP routes
  (a response, or the exception a handler ended with), the records handed to the reply
  producer and the exceptions of the consumer.
\<close>

record Server =
  sv_shipments :: store
  sv_publishers :: "Publisher list"
  sv_responses :: "(exn + Response) list"
  sv_replies :: "ProducerRecord list"
  sv_failures :: "exn list"

datatype ServerEvent =
    PostShipments RequestBody jsstring jsstring
  | GetShipment jsstring
  | ListShipments QueryParam jsstring jsstring
  | CancelShipment jsstring jsstring jsstring
  | KafkaMessage "jsstring option" jsstring jsstring jsstring jsstring "jsstring option"
  | PublisherTurn nat PublisherEvent

definition respond :: "Server \<Rightarrow> exn + outcome \<Rightarrow> Server" where
  "respond s r =
     (case r of
        Inl e \<Rightarrow> s \<lparr> sv_responses := sv_responses s @ [Inl e] \<rparr>
      | Inr (res, st, ns) \<Rightarrow>
          s \<lparr> sv_shipments := st,
              sv_publishers := sv_publishers s @ map publishAnalyticsNotification ns,
              sv_responses := sv_responses s @ [Inr res] \<rparr>)"

fun serverStep :: "runtime \<Rightarrow> Server \<Rightarrow> ServerEvent \<Rightarrow> Server" where
  "serverStep rt s (PostShipments body uuid1 uuid2) =
     respond s (Inr (postShipmentsRoute rt (sv_shipments s) body uuid1 uuid2))"
| "serverStep rt s (GetShipment param) =
     respond s (getShipment rt (sv_shipments s) param)"
| "serverStep rt s (ListShipments q uuid1 uuid2) =
     respond s (Inr (listShipments rt (sv_shipments s) q uuid1 uuid2))"
| "serverStep rt s (CancelShipment param now uuid1) =
     respond s (cancelShipment rt (sv_shipments s) param now uuid1)"
| "serverStep rt s (KafkaMessage msg uuid1 now uuid2 uuid3 sendError) =
     (case eachMessage rt (sv_shipments s) msg uuid1 now uuid2 uuid3 sendError of
        (st, recs, failure) \<Rightarrow>
          s \<lparr> sv_shipments := st, sv_replies := sv_replies s @ recs,
              sv_failures := sv_failures s @ (case failure of None \<Rightarrow> [] | Some e \<Rightarrow> [e]) \<rparr>)"
| "serverStep rt s (PublisherTurn i ev) =
     (if i < length (sv_publishers s) then
        s \<lparr> sv_publishers := (sv_publishers s)[i := publisherStep rt (sv_publishers s ! i) ev] \<rparr>
      else s)"

definition serverRun :: "runtime \<Rightarrow> Server \<Rightarrow> ServerEvent list \<Rightarrow> Server" where
  "serverRun rt s evs = foldl (serverStep rt) s evs"

text \<open>The identifiers \<open>randomUUID()\<close> returns are new: an event that draws a shipment id
  draws one that is not a key of the store.\<close>

fun freshEvent :: "Server \<Rightarrow> ServerEvent \<Rightarrow> bool" where
  "freshEvent s (PostShipments body uuid1 uuid2) = (uuid1 \<notin> set (shipments_keys (sv_shipments s)))"
| "freshEvent s (KafkaMessage msg uuid1 now uuid2 uuid3 sendError) =
     (uuid3 \<notin> set (shipments_keys (sv_shipments s)))"
| "freshEvent s ev = True"

fun freshRun :: "runtime \<Rightarrow> Server \<Rightarrow> ServerEvent list \<Rightarrow> bool" where
  "freshRun rt s [] = True"
| "freshRun rt s (ev # evs) = (freshEvent s ev \<and> freshRun rt (serverStep rt s ev) evs)"

fun isPublisherTurn :: "ServerEvent \<Rightarrow> bool" where
  "isPublisherTurn (PublisherTurn i ev) = True"
| "isPublisherTurn ev = False"

text \<open>What every call of the publisher keeps true: the timer is armed exactly while the
  call is not completed, \<open>client.end\<close> has run once for a completed call and not at all
  before, and the error listener stays registered until the call is completed.\<close>

definition publisherInv :: "Publisher \<Rightarrow> bool" where
  "publisherInv p =
     (timeoutArmed p = (\<not> completed p) \<and> endCalls p = (if completed p then 1 else 0) \<and>
      (errorListener p \<or> completed p))"

text \<open>Two states of the service that differ at most in their publisher calls.\<close>

definition sameService :: "Server \<Rightarrow> Server \<Rightarrow> bool" where
  "sameService s s' =
     (sv_shipments s = sv_shipments s' \<and> sv_responses s = sv_responses s' \<and>
      sv_replies s = sv_replies s' \<and> sv_failures s = sv_failures s')"


section \<open>A runtime for the examples\<close>

text \<open>
  The theorems below hold for every runtime. To run the model on concrete inputs, the
  examples use a runtime that knows the library functions on the inputs of the examples:
  the JSON text of two commands and of one array, one timestamp, the upper case of one
  letter outside ASCII (sharp s), and \<open>decodeURIComponent\<close> on the strings whose escapes
  stand for ASCII characters (a string without escapes is returned as it is, a \<open>%\<close> that
  is not followed by two hexadecimal digits is a \<open>URIError\<close>).
\<close>

definition hexValue :: "nat \<Rightarrow> nat option" where
  "hexValue c =
     (if 0x30 \<le> c \<and> c \<le> 0x39 then Some (c - 0x30)
      else if 0x41 \<le> c \<and> c \<le> 0x46 then Some (c - 0x37)
      else if 0x61 \<le> c \<and> c \<le> 0x66 then Some (c - 0x57)
      else None)"

fun decodeAsciiEscapes :: "jsstring \<Rightarrow> jsstring option" where
  "decodeAsciiEscapes [] = Some []"
| "decodeAsciiEscapes (c # cs) =
     (if c \<noteq> 0x25 then map_option ((#) c) (decodeAsciiEscapes cs)
      else
        (case cs of
           h1 # h2 # rest \<Rightarrow>
             (case (hexValue h1, hexValue h2) of
                (Some a, Some b) \<Rightarrow>
                  if 16 * a + b < 0x80
                  then map_option ((#) (16 * a + b)) (decodeAsciiEscapes rest)
                  else None
              | _ \<Rightarrow> None)
         | _ \<Rightarrow> None))"

definition sampleCommand :: "jsstring \<Rightarrow> jsstring \<Rightarrow> json" where
  "sampleCommand c t =
     JObj [(js ''messageId'', JStr (js ''m1'')), (js ''requestId'', JStr (js ''r1'')),
           (js ''orderId'', JStr (js ''o-2'')), (js ''carrier'', JStr c),
           (js ''requestedAt'', JStr t)]"

definition sampleCommandText :: "jsstring \<Rightarrow> jsstring \<Rightarrow> jsstring" where
  \<open>sampleCommandText c t =
     js ''{"messageId":"m1","requestId":"r1","orderId":"o-2","carrier":"'' @ c @
     js ''","requestedAt":"'' @ t @ js ''"}''\<close>

definition sampleOkText :: jsstring where
  "sampleOkText = sampleCommandText [] (js ''2024-01-01T00:00:00.000Z'')"

definition sampleBadDateText :: jsstring where
  "sampleBadDateText = sampleCommandText [] (js ''not-a-date'')"

definition sampleRuntime :: runtime where
  "sampleRuntime =
     \<lparr> JSON_parse =
         (\<lambda>s. if s = sampleOkText
                then Some (sampleCommand [] (js ''2024-01-01T00:00:00.000Z''))
              else if s = sampleBadDateText
                then Some (sampleCommand [] (js ''not-a-date''))
              else if s = js ''[1]'' then Some (JArr [JNum 1])
              else None),
       Date_parse =
         (\<lambda>s. if s = js ''2024-01-01T00:00:00.000Z'' then Some 1704067200000 else None),
       decodeURIComponent = decodeAsciiEscapes,
       Uppercase_Mapping = (\<lambda>cp. if cp = 0xDF then [0x53, 0x53] else [cp]),
       fulfillmentReplyTopic = js ''queue.order.fulfillment.reply'',
       analyticsNotificationTopic = js ''notification/user'',
       analyticsMqttUrl = js ''mqtt://localhost:1883'' \<rparr>"

definition emptyServer :: Server where
  "emptyServer =
     \<lparr> sv_shipments = [], sv_publishers = [], sv_responses = [], sv_replies = [],
       sv_failures = [] \<rparr>"

definition uuidA :: jsstring where
  "uuidA = js ''11111111-2222-4333-8444-555555555555''"

definition uuidB :: jsstring where
  "uuidB = js ''123e4567-e89b-42d3-a456-426614174000''"

definition uuidC :: jsstring where
  "uuidC = js ''9b2f0c4e-7a1d-4e5b-8c3a-0f1e2d3c4b5a''"

definition sampleBody :: RequestBody where
  "sampleBody = Parsed (Some (JObj [(js ''orderId'', JStr (js ''o-1'')),
                                     (js ''destinationPostalCode'', JStr (js ''10001''))]))"

text \<open>A request body whose \<open>orderId\<close> is a single no-break space.\<close>

definition nbspBody :: RequestBody where
  "nbspBody = Parsed (Some (JObj [(js ''orderId'', JStr [0xA0]),
                                   (js ''destinationPostalCode'', JStr (js ''10001''))]))"

definition sampleNotification :: AnalyticsNotificationEvent where
  "sampleNotification =
     \<lparr> notificationId = uuidA, n_requestId = uuidB, n_title = js ''ShipmentCreated'',
       n_body = js ''Shipment created'', n_priority = NORMAL \<rparr>"

definition sampleShipment :: Shipment where
  "sampleShipment =
     \<lparr> shipmentId = uuidC, orderId = js ''o-2'', carrier = js ''ACME_SHIP'',
       trackingNumber = js ''TRK-123E4567E89B'', status = CREATED, cancelledAt = None \<rparr>"

definition sampleServer :: Server where
  "sampleServer = emptyServer \<lparr> sv_shipments := [(uuidC, sampleShipment)] \<rparr>"

lemmas sample_simps = js_def sampleRuntime_def sampleCommand_def sampleCommandText_def
  sampleOkText_def sampleBadDateText_def shipments_keys_def shipments_get_def
  makeTrackingNumber_def toUpperCase_def toUppercase_def asciiUpper_def
  UTF16EncodeCodePoint_def isLeadingSurrogate_def isTrailingSurrogate_def
  uuidA_def uuidB_def uuidC_def


section \<open>Auxiliary facts\<close>

subsection \<open>Tracking numbers\<close>

lemma hex_table:
  "\<forall>c \<in> set (js ''0123456789abcdef''). isHexUpper (asciiUpper c) \<and> c \<noteq> 0x2D \<and> c < 0x80"
  by (simp add: js_def isHexUpper_def asciiUpper_def)

lemma isHexLower_upper: "isHexLower c \<Longrightarrow> isHexUpper (asciiUpper c)"
  using hex_table unfolding isHexLower_def by blast

lemma isHexLower_not_dash: "isHexLower c \<Longrightarrow> c \<noteq> 0x2D"
  using hex_table unfolding isHexLower_def by blast

lemma isHexLower_ascii: "isHexLower c \<Longrightarrow> c < 0x80"
  using hex_table unfolding isHexLower_def by blast

lemma filter_hex: "list_all isHexLower xs \<Longrightarrow> filter (\<lambda>c. c \<noteq> 0x2D) xs = xs"
  by (induction xs) (auto dest: isHexLower_not_dash)

lemma StringToCodePoints_ascii: "list_all (\<lambda>c. c < 0x80) s \<Longrightarrow> StringToCodePoints s = s"
  by (induction s rule: StringToCodePoints.induct) (auto simp: isLeadingSurrogate_def)

lemma asciiUpper_le: "asciiUpper c \<le> c"
  by (simp add: asciiUpper_def)

lemma toUpperCase_ascii:
  assumes "list_all (\<lambda>c. c < 0x80) s"
  shows "toUpperCase rt s = map asciiUpper s"
proof -
  have "concat (map UTF16EncodeCodePoint (concat (map (toUppercase rt) xs))) = map asciiUpper xs"
    if "list_all (\<lambda>c. c < 0x80) xs" for xs
    using that
  proof (induction xs)
    case Nil
    then show ?case by simp
  next
    case (Cons c cs)
    then have "c < 0x80" by simp
    moreover have "asciiUpper c \<le> 0xFFFF"
      using asciiUpper_le [of c] \<open>c < 0x80\<close> by simp
    ultimately show ?case
      using Cons by (simp add: toUppercase_def UTF16EncodeCodePoint_def)
  qed
  then show ?thesis
    using assms by (simp add: toUpperCase_def StringToCodePoints_ascii)
qed

lemma uuid_prefix:
  assumes "isUUID u"
  shows "take 12 (filter (\<lambda>c. c \<noteq> 0x2D) u) = take 8 u @ take 4 (drop 9 u)"
proof -
  from assms have len: "length u = 36" and a: "list_all isHexLower (take 8 u)"
    and d: "u ! 8 = 0x2D" and b: "list_all isHexLower (take 4 (drop 9 u))"
    by (simp_all add: isUUID_def)
  have "u = take 8 u @ u ! 8 # drop 9 u"
    using id_take_nth_drop [of 8 u] len by simp
  also have "drop 9 u = take 4 (drop 9 u) @ drop 13 u"
    using append_take_drop_id [of 4 "drop 9 u"] by simp
  finally have split: "u = take 8 u @ u ! 8 # take 4 (drop 9 u) @ drop 13 u" .
  have "filter (\<lambda>c. c \<noteq> 0x2D) u =
        take 8 u @ take 4 (drop 9 u) @ filter (\<lambda>c. c \<noteq> 0x2D) (drop 13 u)"
    by (subst split) (simp add: filter_hex [OF a] filter_hex [OF b] d)
  then show ?thesis using len by simp
qed

lemma makeTrackingNumber_pattern:
  assumes u: "isUUID u"
  shows "matchesTrackingPattern (makeTrackingNumber rt u)"
proof -
  from u have len: "length u = 36" and a: "list_all isHexLower (take 8 u)"
    and b: "list_all isHexLower (take 4 (drop 9 u))"
    by (simp_all add: isUUID_def)
  let ?digits = "take 8 u @ take 4 (drop 9 u)"
  have hex: "list_all isHexLower ?digits" using a b by simp
  then have "list_all (\<lambda>c. c < 0x80) ?digits"
    by (auto simp: list_all_iff dest: isHexLower_ascii)
  then have up: "toUpperCase rt ?digits = map asciiUpper ?digits"
    by (rule toUpperCase_ascii)
  have "list_all isHexUpper (map asciiUpper ?digits)"
    using hex by (auto simp: list_all_iff dest: isHexLower_upper)
  then show ?thesis
    using len
    by (simp add: matchesTrackingPattern_def makeTrackingNumber_def uuid_prefix [OF u] up js_def)
qed

lemma makeTrackingNumber_nonempty: "makeTrackingNumber rt u \<noteq> []"
  by (simp add: makeTrackingNumber_def js_def)

subsection \<open>The store\<close>

lemma shipments_get_set:
  "shipments_get (shipments_set st k v) k' = (if k' = k then Some v else shipments_get st k')"
  by (induction st) (auto simp: shipments_get_def)

lemma shipments_keys_set:
  "shipments_keys (shipments_set st k v) =
     (if k \<in> set (shipments_keys st) then shipments_keys st else shipments_keys st @ [k])"
  by (induction st) (force simp: shipments_keys_def)+

lemma shipments_get_None: "shipments_get st k = None \<longleftrightarrow> k \<notin> set (shipments_keys st)"
  by (simp add: shipments_get_def shipments_keys_def map_of_eq_None_iff)

lemma shipments_set_fresh:
  "k \<notin> set (shipments_keys st) \<Longrightarrow> shipments_set st k v = st @ [(k, v)]"
  by (induction st) (auto simp: shipments_keys_def)

subsection \<open>Command payloads\<close>

lemma asString_Some: "asString x = Some s \<longleftrightarrow> x = Some (JStr s)"
  by (cases x rule: asString.cases) auto

lemma typeofString_iff: "typeofString x \<longleftrightarrow> (\<exists>s. x = Some (JStr s))"
  by (cases x rule: asString.cases) (auto simp: typeofString_def)

text \<open>The type guard accepts exactly the objects that carry the five fields as strings.\<close>

lemma isDispatchCommandEvent_iff:
  "isDispatchCommandEvent v \<longleftrightarrow>
     (\<exists>fs m r ord c t. v = JObj fs \<and>
        map_of fs (js ''messageId'') = Some (JStr m) \<and> map_of fs (js ''requestId'') = Some (JStr r) \<and>
        map_of fs (js ''orderId'') = Some (JStr ord) \<and> map_of fs (js ''carrier'') = Some (JStr c) \<and>
        map_of fs (js ''requestedAt'') = Some (JStr t))"
  by (cases v) (simp_all add: isDispatchCommandEvent_def typeofString_iff)

lemma asDispatchCommandEvent_obj:
  assumes "map_of fs (js ''messageId'') = Some (JStr m)" and "map_of fs (js ''requestId'') = Some (JStr r)"
    and "map_of fs (js ''orderId'') = Some (JStr ord)" and "map_of fs (js ''carrier'') = Some (JStr c)"
    and "map_of fs (js ''requestedAt'') = Some (JStr t)"
  shows "asDispatchCommandEvent (JObj fs) =
     Some \<lparr> c_messageId = m, c_requestId = r, c_orderId = ord, c_carrier = c, c_requestedAt = t \<rparr>"
  using assms by (simp add: asDispatchCommandEvent_def)


subsection \<open>The publisher\<close>

lemma publisherInv_init: "publisherInv (publishAnalyticsNotification event)"
  by (simp add: publisherInv_def publishAnalyticsNotification_def)

lemma publisherInv_step: "publisherInv p \<Longrightarrow> publisherInv (publisherStep rt p ev)"
  by (cases ev)
    (auto simp: publisherInv_def doneOnce_def clearTimeout_def logError_def Let_def
      split: option.splits)

lemma run_Cons: "publisherRun rt p (ev # evs) = publisherRun rt (publisherStep rt p ev) evs"
  by (simp add: publisherRun_def)

lemma publisherInv_run: "publisherInv p \<Longrightarrow> publisherInv (publisherRun rt p evs)"
  unfolding publisherRun_def
  by (induction evs arbitrary: p) (simp_all add: publisherInv_step)

lemma completed_step: "completed p \<Longrightarrow> completed (publisherStep rt p ev)"
  by (cases ev)
    (auto simp: doneOnce_def clearTimeout_def logError_def Let_def split: option.splits)

lemma completed_run: "completed p \<Longrightarrow> completed (publisherRun rt p evs)"
  unfolding publisherRun_def
  by (induction evs arbitrary: p) (simp_all add: completed_step)

lemma timeout_completes:
  "publisherInv p \<Longrightarrow> completed (publisherStep rt p TimeoutFired)"
  by (auto simp: publisherInv_def doneOnce_def)

lemma error_completes:
  "publisherInv p \<Longrightarrow> completed (publisherStep rt p (ClientError m))"
  by (auto simp: publisherInv_def doneOnce_def clearTimeout_def logError_def)

lemma edge_completes:
  "publisherInv p \<Longrightarrow> TimeoutFired \<in> set evs \<or> (\<exists>m. ClientError m \<in> set evs) \<Longrightarrow>
     completed (publisherRun rt p evs)"
proof (induction evs arbitrary: p)
  case Nil
  then show ?case by simp
next
  case (Cons ev evs)
  show ?case
  proof (cases "ev = TimeoutFired \<or> (\<exists>m. ev = ClientError m)")
    case True
    then have "completed (publisherStep rt p ev)"
      using Cons.prems(1) timeout_completes error_completes by blast
    then show ?thesis by (simp add: run_Cons completed_run)
  next
    case False
    then have "TimeoutFired \<in> set evs \<or> (\<exists>m. ClientError m \<in> set evs)"
      using Cons.prems(2) by auto
    then show ?thesis
      using Cons.IH [OF publisherInv_step [OF Cons.prems(1)]] by (simp add: run_Cons)
  qed
qed

lemma outstanding_step:
  "publishOutstanding p \<Longrightarrow> \<not> isPublishCallback ev \<Longrightarrow> publishOutstanding (publisherStep rt p ev)"
  by (cases ev) (auto simp: doneOnce_def clearTimeout_def logError_def)

lemma callback_completes:
  "publishOutstanding p \<Longrightarrow> isPublishCallback ev \<Longrightarrow> completed (publisherStep rt p ev)"
  by (cases ev) (auto simp: doneOnce_def clearTimeout_def logError_def Let_def split: option.splits)

lemma outstanding_completes:
  "publishOutstanding p \<Longrightarrow> list_ex isPublishCallback evs \<Longrightarrow> completed (publisherRun rt p evs)"
proof (induction evs arbitrary: p)
  case Nil
  then show ?case by simp
next
  case (Cons ev evs)
  show ?case
  proof (cases "isPublishCallback ev")
    case True
    then show ?thesis
      using Cons.prems(1) by (simp add: run_Cons completed_run callback_completes)
  next
    case False
    then show ?thesis
      using Cons by (simp add: run_Cons outstanding_step)
  qed
qed

lemma listener_step:
  "connectListener p \<Longrightarrow> ev \<noteq> Connected \<Longrightarrow> connectListener (publisherStep rt p ev)"
  by (cases ev) (auto simp: doneOnce_def clearTimeout_def logError_def Let_def split: option.splits)

lemma acknowledged_completes:
  "connectListener p \<Longrightarrow> acknowledged evs \<Longrightarrow> completed (publisherRun rt p evs)"
proof (induction evs arbitrary: p)
  case Nil
  then show ?case by simp
next
  case (Cons ev evs)
  show ?case
  proof (cases "ev = Connected")
    case True
    then have "publishOutstanding (publisherStep rt p ev)"
      using Cons.prems(1) by simp
    then show ?thesis
      using Cons.prems(2) True by (simp add: run_Cons outstanding_completes)
  next
    case False
    then have "acknowledged evs" using Cons.prems(2) by (cases ev) simp_all
    then show ?thesis
      using Cons.IH [OF listener_step [OF Cons.prems(1) False]] by (simp add: run_Cons)
  qed
qed

subsection \<open>Publisher turns and the rest of the service\<close>

lemma respond_same:
  "sameService s s' \<Longrightarrow> sameService (respond s r) (respond s' r)"
  by (auto simp: sameService_def respond_def split: sum.splits prod.splits)

lemma step_same:
  "sameService s s' \<Longrightarrow> \<not> isPublisherTurn ev \<Longrightarrow>
     sameService (serverStep rt s ev) (serverStep rt s' ev)"
proof (cases ev)
  case (KafkaMessage msg uuid1 now uuid2 uuid3 sendError)
  assume "sameService s s'"
  then show ?thesis
    using KafkaMessage by (auto simp: sameService_def split: prod.splits)
qed (auto simp: respond_same sameService_def [of s s'])

lemma turn_same: "sameService s s' \<Longrightarrow> sameService (serverStep rt s (PublisherTurn i ev)) s'"
  by (simp add: sameService_def)

lemma serverRun_Cons: "serverRun rt s (ev # evs) = serverRun rt (serverStep rt s ev) evs"
  by (simp add: serverRun_def)

lemma run_same:
  "sameService s s' \<Longrightarrow>
     sameService (serverRun rt s evs) (serverRun rt s' (filter (\<lambda>e. \<not> isPublisherTurn e) evs))"
proof (induction evs arbitrary: s s')
  case Nil
  then show ?case by (simp add: serverRun_def)
next
  case (Cons ev evs)
  show ?case
  proof (cases "isPublisherTurn ev")
    case True
    then obtain i e where "ev = PublisherTurn i e" by (cases ev) simp_all
    then show ?thesis
      using Cons.IH [OF turn_same [OF Cons.prems, of rt i e]] True by (simp add: serverRun_Cons)
  next
    case False
    then show ?thesis
      using Cons.IH [OF step_same [OF Cons.prems False, of rt]] by (simp add: serverRun_Cons)
  qed
qed

lemma respond_publishers:
  "list_all publisherInv (sv_publishers s) \<Longrightarrow> list_all publisherInv (sv_publishers (respond s r))"
  by (auto simp: respond_def list_all_iff publisherInv_init split: sum.splits prod.splits)

lemma step_publishers:
  "list_all publisherInv (sv_publishers s) \<Longrightarrow>
     list_all publisherInv (sv_publishers (serverStep rt s ev))"
proof (cases ev)
  case (PublisherTurn i e)
  assume inv: "list_all publisherInv (sv_publishers s)"
  show ?thesis
  proof (cases "i < length (sv_publishers s)")
    case True
    then have "publisherInv (sv_publishers s ! i)"
      using inv by (simp add: list_all_length)
    then have "publisherInv (publisherStep rt (sv_publishers s ! i) e)"
      by (rule publisherInv_step)
    then show ?thesis
      using inv True PublisherTurn
      by (auto simp: list_all_length nth_list_update)
  next
    case False
    then show ?thesis using inv PublisherTurn by simp
  qed
qed (auto simp: respond_publishers split: prod.splits)

lemma run_publishers:
  "list_all publisherInv (sv_publishers s) \<Longrightarrow>
     list_all publisherInv (sv_publishers (serverRun rt s evs))"
  by (induction evs arbitrary: s) (simp_all add: serverRun_def step_publishers)

subsection \<open>What the handlers do to the store\<close>

lemma postShipmentsRoute_effect:
  assumes "postShipmentsRoute rt shipments body uuid1 uuid2 = (res, st, ns)"
  shows "(statusCode res = 400 \<and> st = shipments) \<or>
     (statusCode res = 201 \<and>
      (\<exists>v. st = shipments_set shipments uuid1 v \<and> shipmentId v = uuid1 \<and>
           trackingNumber v = makeTrackingNumber rt uuid1))"
  using assms
  by (auto simp: postShipmentsRoute_def postShipments_def Let_def
      split: RequestBody.splits if_splits)

lemma eachMessage_effect:
  assumes run: "eachMessage rt shipments msg uuid1 now uuid2 uuid3 sendError = (st, recs, failure)"
  shows "(st = shipments \<and> (\<forall>rec \<in> set recs. r_status (p_reply rec) = REJECTED)) \<or>
     (\<exists>rec v. recs = [rec] \<and> r_status (p_reply rec) = ACCEPTED \<and>
        r_trackingId (p_reply rec) = Some (makeTrackingNumber rt uuid2) \<and>
        st = shipments_set shipments uuid3 v \<and> shipmentId v = uuid3 \<and>
        trackingNumber v = makeTrackingNumber rt uuid2)"
proof (cases "\<exists>bytes payload command ms. msg = Some bytes \<and> JSON_parse rt bytes = Some payload \<and>
    isDispatchCommandEvent payload \<and> asDispatchCommandEvent payload = Some command \<and>
    Date_parse rt (c_requestedAt command) = Some ms")
  case True
  then obtain bytes payload command ms where c: "msg = Some bytes"
    "JSON_parse rt bytes = Some payload" "isDispatchCommandEvent payload"
    "asDispatchCommandEvent payload = Some command"
    "Date_parse rt (c_requestedAt command) = Some ms"
    by blast
  define rec where "rec = \<lparr> p_topic = fulfillmentReplyTopic rt, p_key = c_orderId command,
    p_reply = \<lparr> r_messageId = uuid1, r_requestId = c_requestId command,
      r_orderId = c_orderId command, r_status = ACCEPTED, r_repliedAt = now,
      r_trackingId = Some (makeTrackingNumber rt uuid2), r_rejectionReason = None \<rparr> \<rparr>"
  define v where "v = \<lparr> shipmentId = uuid3, orderId = c_orderId command,
    carrier = orElse (Some (c_carrier command)) (js ''ACME_SHIP''),
    trackingNumber = makeTrackingNumber rt uuid2, status = CREATED, cancelledAt = None \<rparr>"
  have "eachMessage rt shipments msg uuid1 now uuid2 uuid3 sendError =
      (shipments_set shipments uuid3 v, [rec], map_option SendFailed sendError)"
    using c
    by (simp add: eachMessage_def buildFulfillmentReply_def Let_def orElse_def
        makeTrackingNumber_nonempty rec_def v_def)
  with run have "recs = [rec]" "st = shipments_set shipments uuid3 v" by simp_all
  moreover have "r_status (p_reply rec) = ACCEPTED"
    "r_trackingId (p_reply rec) = Some (makeTrackingNumber rt uuid2)"
    by (simp_all add: rec_def)
  moreover have "shipmentId v = uuid3" "trackingNumber v = makeTrackingNumber rt uuid2"
    by (simp_all add: v_def)
  ultimately show ?thesis by blast
next
  case False
  with run have "st = shipments \<and> (\<forall>rec \<in> set recs. r_status (p_reply rec) = REJECTED)"
    by (auto simp: eachMessage_def buildFulfillmentReply_def Let_def
        split: option.splits if_splits)
  then show ?thesis by simp
qed

lemma cancelShipment_effect:
  assumes "cancelShipment rt shipments param now uuid1 = Inr (res, st, ns)"
  shows "\<exists>sid. st = shipments_set shipments sid
     ((getOrDefault rt shipments sid) \<lparr> status := CANCELLED, cancelledAt := Some now \<rparr>)"
  using assms by (auto simp: cancelShipment_def Let_def split: option.splits)

lemma fresh_key:
  "shipments_get st k = Some r \<Longrightarrow> k' \<notin> set (shipments_keys st) \<Longrightarrow> k \<noteq> k'"
  using shipments_get_None [of st k'] by auto

lemma step_keeps_tracking:
  assumes fresh: "freshEvent s ev"
    and stored: "shipments_get (sv_shipments s) k = Some r"
  shows "\<exists>r'. shipments_get (sv_shipments (serverStep rt s ev)) k = Some r' \<and>
     trackingNumber r' = trackingNumber r"
proof (cases ev)
  case (PostShipments body uuid1 uuid2)
  obtain res st ns where out: "postShipmentsRoute rt (sv_shipments s) body uuid1 uuid2 = (res, st, ns)"
    by (cases "postShipmentsRoute rt (sv_shipments s) body uuid1 uuid2") auto
  have "k \<noteq> uuid1" using fresh stored PostShipments by (auto dest: fresh_key)
  then have "shipments_get st k = Some r"
    using postShipmentsRoute_effect [OF out] stored by (auto simp: shipments_get_set)
  then show ?thesis using PostShipments out by (simp add: respond_def)
next
  case (GetShipment param)
  then show ?thesis
    using stored by (auto simp: respond_def getShipment_def split: option.splits)
next
  case (ListShipments q uuid1 uuid2)
  then show ?thesis
    using stored by (simp add: respond_def listShipments_def Let_def)
next
  case (CancelShipment param now uuid1)
  show ?thesis
  proof (cases "cancelShipment rt (sv_shipments s) param now uuid1")
    case (Inl e)
    then show ?thesis using CancelShipment stored by (simp add: respond_def)
  next
    case (Inr out)
    obtain res st ns where out: "out = (res, st, ns)" by (cases out) auto
    from cancelShipment_effect [OF Inr [unfolded out]] obtain sid where
      st: "st = shipments_set (sv_shipments s) sid
        ((getOrDefault rt (sv_shipments s) sid) \<lparr> status := CANCELLED, cancelledAt := Some now \<rparr>)"
      by blast
    have "\<exists>r'. shipments_get st k = Some r' \<and> trackingNumber r' = trackingNumber r"
      using stored by (auto simp: st shipments_get_set getOrDefault_def)
    then show ?thesis using CancelShipment Inr out by (simp add: respond_def)
  qed
next
  case (KafkaMessage msg uuid1 now uuid2 uuid3 sendError)
  obtain st recs failure where
    out: "eachMessage rt (sv_shipments s) msg uuid1 now uuid2 uuid3 sendError = (st, recs, failure)"
    by (cases "eachMessage rt (sv_shipments s) msg uuid1 now uuid2 uuid3 sendError") auto
  have "k \<noteq> uuid3" using fresh stored KafkaMessage by (auto dest: fresh_key)
  then have "shipments_get st k = Some r"
    using eachMessage_effect [OF out] stored by (auto simp: shipments_get_set)
  then show ?thesis using KafkaMessage out by simp
next
  case (PublisherTurn i e)
  then show ?thesis using stored by simp
qed

lemma run_keeps_tracking:
  "freshRun rt s evs \<Longrightarrow> shipments_get (sv_shipments s) k = Some r \<Longrightarrow>
     \<exists>r'. shipments_get (sv_shipments (serverRun rt s evs)) k = Some r' \<and>
       trackingNumber r' = trackingNumber r"
proof (induction evs arbitrary: s r)
  case Nil
  then show ?case by (simp add: serverRun_def)
next
  case (Cons ev evs)
  from Cons.prems have fresh: "freshEvent s ev" and rest: "freshRun rt (serverStep rt s ev) evs"
    by simp_all
  from step_keeps_tracking [OF fresh Cons.prems(2), of rt] obtain r1 where
    r1: "shipments_get (sv_shipments (serverStep rt s ev)) k = Some r1"
      "trackingNumber r1 = trackingNumber r"
    by blast
  from Cons.IH [OF rest r1(1)] r1(2) show ?case
    by (simp add: serverRun_Cons)
qed


section \<open>The dispatch command consumer: properties\<close>

text \<open>
  C2. A structurally valid command whose \<open>requestedAt\<close> parses as a timestamp: the message
  parses to an object that carries the five fields as strings, and \<open>Date.parse\<close> of the
  timestamp is a number. With a new shipment id, the consumer appends exactly one record to
  the store (status \<open>CREATED\<close>, the command's order id, the command's carrier or
  \<open>ACME_SHIP\<close> when it is empty) and hands exactly one record to the reply producer: keyed
  by the command's order id, status \<open>ACCEPTED\<close>, the command's request id, and a tracking
  id equal to the tracking number of the record created. This holds whether or not the
  send then fails.
\<close>

theorem dispatch_accepted:
  assumes parse: "JSON_parse rt bytes = Some (JObj fs)"
    and m: "map_of fs (js ''messageId'') = Some (JStr m)"
    and r: "map_of fs (js ''requestId'') = Some (JStr r)"
    and ord: "map_of fs (js ''orderId'') = Some (JStr ord)"
    and c: "map_of fs (js ''carrier'') = Some (JStr c)"
    and t: "map_of fs (js ''requestedAt'') = Some (JStr t)"
    and valid: "Date_parse rt t = Some ms"
    and fresh: "uuid3 \<notin> set (shipments_keys shipments)"
  shows "eachMessage rt shipments (Some bytes) uuid1 now uuid2 uuid3 sendError =
     (shipments @
        [(uuid3, \<lparr> shipmentId = uuid3, orderId = ord,
                    carrier = (if c = [] then js ''ACME_SHIP'' else c),
                    trackingNumber = makeTrackingNumber rt uuid2, status = CREATED,
                    cancelledAt = None \<rparr>)],
      [\<lparr> p_topic = fulfillmentReplyTopic rt, p_key = ord,
         p_reply = \<lparr> r_messageId = uuid1, r_requestId = r, r_orderId = ord,
                     r_status = ACCEPTED, r_repliedAt = now,
                     r_trackingId = Some (makeTrackingNumber rt uuid2),
                     r_rejectionReason = None \<rparr> \<rparr>],
      map_option SendFailed sendError)"
proof -
  have ev: "isDispatchCommandEvent (JObj fs)"
    using m r ord c t by (simp add: isDispatchCommandEvent_iff)
  have cmd: "asDispatchCommandEvent (JObj fs) =
     Some \<lparr> c_messageId = m, c_requestId = r, c_orderId = ord, c_carrier = c, c_requestedAt = t \<rparr>"
    by (rule asDispatchCommandEvent_obj [OF m r ord c t])
  show ?thesis
    using parse ev cmd valid
    by (simp add: eachMessage_def buildFulfillmentReply_def orElse_def
        makeTrackingNumber_nonempty shipments_set_fresh [OF fresh])
qed

theorem dispatch_accepted_witness:
  "JSON_parse sampleRuntime sampleOkText = Some (sampleCommand [] (js ''2024-01-01T00:00:00.000Z'')) \<and>
   Date_parse sampleRuntime (js ''2024-01-01T00:00:00.000Z'') = Some 1704067200000 \<and>
   uuidC \<notin> set (shipments_keys []) \<and>
   eachMessage sampleRuntime [] (Some sampleOkText) uuidA (js ''2024-01-02T10:00:00.000Z'') uuidB uuidC None =
     ([(uuidC, \<lparr> shipmentId = uuidC, orderId = js ''o-2'', carrier = js ''ACME_SHIP'',
                  trackingNumber = js ''TRK-123E4567E89B'', status = CREATED, cancelledAt = None \<rparr>)],
      [\<lparr> p_topic = js ''queue.order.fulfillment.reply'', p_key = js ''o-2'',
         p_reply = \<lparr> r_messageId = uuidA, r_requestId = js ''r1'', r_orderId = js ''o-2'',
                     r_status = ACCEPTED, r_repliedAt = js ''2024-01-02T10:00:00.000Z'',
                     r_trackingId = Some (js ''TRK-123E4567E89B''), r_rejectionReason = None \<rparr> \<rparr>],
      None)"
  using dispatch_accepted [where rt = sampleRuntime and bytes = "sampleOkText"
      and fs = "[(js ''messageId'', JStr (js ''m1'')), (js ''requestId'', JStr (js ''r1'')),
                 (js ''orderId'', JStr (js ''o-2'')), (js ''carrier'', JStr []),
                 (js ''requestedAt'', JStr (js ''2024-01-01T00:00:00.000Z''))]"
      and m = "js ''m1''" and r = "js ''r1''" and ord = "js ''o-2''" and c = "[]"
      and t = "js ''2024-01-01T00:00:00.000Z''" and ms = 1704067200000 and ?uuid3.0 = uuidC
      and shipments = "[]" and ?uuid1.0 = uuidA and now = "js ''2024-01-02T10:00:00.000Z''"
      and ?uuid2.0 = uuidB and sendError = None]
  by (simp add: sample_simps)

text \<open>
  C3. A structurally valid command whose \<open>requestedAt\<close> does not parse as a timestamp:
  the consumer hands exactly one reply to the producer, with status \<open>REJECTED\<close>, the reason
  \<open>Invalid requestedAt\<close>, the command's request id and order id and no tracking id, and
  the store is the one it was.
\<close>

theorem dispatch_rejected:
  assumes parse: "JSON_parse rt bytes = Some (JObj fs)"
    and m: "map_of fs (js ''messageId'') = Some (JStr m)"
    and r: "map_of fs (js ''requestId'') = Some (JStr r)"
    and ord: "map_of fs (js ''orderId'') = Some (JStr ord)"
    and c: "map_of fs (js ''carrier'') = Some (JStr c)"
    and t: "map_of fs (js ''requestedAt'') = Some (JStr t)"
    and invalid: "Date_parse rt t = None"
  shows "eachMessage rt shipments (Some bytes) uuid1 now uuid2 uuid3 sendError =
     (shipments,
      [\<lparr> p_topic = fulfillmentReplyTopic rt, p_key = ord,
         p_reply = \<lparr> r_messageId = uuid1, r_requestId = r, r_orderId = ord,
                     r_status = REJECTED, r_repliedAt = now, r_trackingId = None,
                     r_rejectionReason = Some (js ''Invalid requestedAt'') \<rparr> \<rparr>],
      map_option SendFailed sendError)"
proof -
  have ev: "isDispatchCommandEvent (JObj fs)"
    using m r ord c t by (simp add: isDispatchCommandEvent_iff)
  have cmd: "asDispatchCommandEvent (JObj fs) =
     Some \<lparr> c_messageId = m, c_requestId = r, c_orderId = ord, c_carrier = c, c_requestedAt = t \<rparr>"
    by (rule asDispatchCommandEvent_obj [OF m r ord c t])
  show ?thesis
    using parse ev cmd invalid
    by (simp add: eachMessage_def buildFulfillmentReply_def)
qed

theorem dispatch_rejected_witness:
  "JSON_parse sampleRuntime sampleBadDateText = Some (sampleCommand [] (js ''not-a-date'')) \<and>
   Date_parse sampleRuntime (js ''not-a-date'') = None \<and>
   eachMessage sampleRuntime [] (Some sampleBadDateText) uuidA (js ''2024-01-02T10:00:00.000Z'') uuidB uuidC None =
     ([],
      [\<lparr> p_topic = js ''queue.order.fulfillment.reply'', p_key = js ''o-2'',
         p_reply = \<lparr> r_messageId = uuidA, r_requestId = js ''r1'', r_orderId = js ''o-2'',
                     r_status = REJECTED, r_repliedAt = js ''2024-01-02T10:00:00.000Z'',
                     r_trackingId = None, r_rejectionReason = Some (js ''Invalid requestedAt'') \<rparr> \<rparr>],
      None)"
  using dispatch_rejected [where rt = sampleRuntime and bytes = "sampleBadDateText"
      and fs = "[(js ''messageId'', JStr (js ''m1'')), (js ''requestId'', JStr (js ''r1'')),
                 (js ''orderId'', JStr (js ''o-2'')), (js ''carrier'', JStr []),
                 (js ''requestedAt'', JStr (js ''not-a-date''))]"
      and m = "js ''m1''" and r = "js ''r1''" and ord = "js ''o-2''" and c = "[]"
      and t = "js ''not-a-date''" and ?uuid3.0 = uuidC
      and shipments = "[]" and ?uuid1.0 = uuidA and now = "js ''2024-01-02T10:00:00.000Z''"
      and ?uuid2.0 = uuidB and sendError = None]
  by (simp add: sample_simps)

text \<open>
  C4. A message without a value, a message whose bytes \<open>JSON.parse\<close> rejects (as it
  rejects the empty buffer), and a message that parses to anything but an object with the
  five fields as strings are dropped: the store is unchanged, nothing is handed to the
  producer and the handler ends without an exception, whatever the producer would do.
\<close>

theorem malformed_dropped:
  assumes "msg = None \<or>
     (\<exists>bytes. msg = Some bytes \<and>
        (JSON_parse rt bytes = None \<or>
         (\<exists>payload. JSON_parse rt bytes = Some payload \<and>
            \<not> (\<exists>fs m r ord c t. payload = JObj fs \<and>
                 map_of fs (js ''messageId'') = Some (JStr m) \<and>
                 map_of fs (js ''requestId'') = Some (JStr r) \<and>
                 map_of fs (js ''orderId'') = Some (JStr ord) \<and>
                 map_of fs (js ''carrier'') = Some (JStr c) \<and>
                 map_of fs (js ''requestedAt'') = Some (JStr t)))))"
  shows "eachMessage rt shipments msg uuid1 now uuid2 uuid3 sendError = (shipments, [], None)"
proof -
  consider (absent) "msg = None"
    | (unparsable) bytes where "msg = Some bytes" "JSON_parse rt bytes = None"
    | (shape) bytes payload where "msg = Some bytes" "JSON_parse rt bytes = Some payload"
        "\<not> isDispatchCommandEvent payload"
    using assms unfolding isDispatchCommandEvent_iff by blast
  then show ?thesis
    by cases (simp_all add: eachMessage_def)
qed

theorem malformed_dropped_witness:
  "eachMessage sampleRuntime [] None uuidA (js ''t'') uuidB uuidC (Some (js ''down'')) = ([], [], None) \<and>
   JSON_parse sampleRuntime [] = None \<and>
   eachMessage sampleRuntime [] (Some []) uuidA (js ''t'') uuidB uuidC (Some (js ''down'')) = ([], [], None) \<and>
   JSON_parse sampleRuntime (js ''[1]'') = Some (JArr [JNum 1]) \<and>
   eachMessage sampleRuntime [] (Some (js ''[1]'')) uuidA (js ''t'') uuidB uuidC (Some (js ''down'')) = ([], [], None)"
  using malformed_dropped [where rt = sampleRuntime and msg = None and shipments = "[]"
      and ?uuid1.0 = uuidA and now = "js ''t''" and ?uuid2.0 = uuidB and ?uuid3.0 = uuidC
      and sendError = "Some (js ''down'')"]
    malformed_dropped [where rt = sampleRuntime and msg = "Some []" and shipments = "[]"
      and ?uuid1.0 = uuidA and now = "js ''t''" and ?uuid2.0 = uuidB and ?uuid3.0 = uuidC
      and sendError = "Some (js ''down'')"]
    malformed_dropped [where rt = sampleRuntime and msg = "Some (js ''[1]'')" and shipments = "[]"
      and ?uuid1.0 = uuidA and now = "js ''t''" and ?uuid2.0 = uuidB and ?uuid3.0 = uuidC
      and sendError = "Some (js ''down'')"]
  by (simp add: sample_simps)


section \<open>The HTTP routes: properties\<close>

text \<open>
  C5, as the code has it. \<open>GET /shipments\<close> answers 200 and leaves the store alone. On a
  store with records it returns their views in the order of the store, all of them when
  no non-empty string filter is supplied, those with the given order id otherwise. On an
  empty store it returns a single synthesized placeholder whether or not a filter is
  supplied: its order id is the filter when that is a non-empty string, and
  \<open>order-default\<close> otherwise. The order of the store is insertion order: \<open>set\<close> on a
  present key keeps the keys as they are, and on a new key appends it.
\<close>

theorem list_shipments_behaviour:
  "listShipments rt shipments q uuid1 uuid2 =
     (\<lparr> statusCode = 200,
        resBody = ShipmentsBody
          (if shipments = [] then
             [\<lparr> shipmentId = uuid1,
                orderId = (case q of QString s \<Rightarrow> if s = [] then (js ''order-default'') else s
                           | _ \<Rightarrow> (js ''order-default'')),
                carrier = js ''ACME_SHIP'', trackingNumber = makeTrackingNumber rt uuid2,
                status = IN_TRANSIT, cancelledAt = None \<rparr>]
           else
             map toShipmentView
               (case q of
                  QString s \<Rightarrow>
                    if s = [] then map snd shipments
                    else filter (\<lambda>shipment. orderId shipment = s) (map snd shipments)
                | _ \<Rightarrow> map snd shipments)) \<rparr>,
      shipments, []) \<and>
   shipments_keys (shipments_set shipments k v) =
     (if k \<in> set (shipments_keys shipments) then shipments_keys shipments
      else shipments_keys shipments @ [k])"
  by (cases q)
    (simp_all add: listShipments_def shipments_values_def orElse_def toShipmentView_def
      shipments_keys_set)

text \<open>
  The claim as stated fails: on the empty store, with no filter, the route does not return
  the empty list of stored records.
\<close>

theorem list_empty_store_no_filter_counterexample:
  "resBody (fst (listShipments sampleRuntime [] QAbsent uuidA uuidB)) \<noteq>
     ShipmentsBody (map toShipmentView (shipments_values []))"
  by (simp add: listShipments_def shipments_values_def)

text \<open>
  When the path parameter decodes to a shipment id, \<open>GET /shipments/:shipmentId\<close> answers
  200 with the view of the stored record when the id is present and otherwise with a
  synthesized default (that id, order id \<open>order-\<close> followed by the id, carrier
  \<open>ACME_SHIP\<close>, status \<open>IN_TRANSIT\<close>, tracking number derived from the id), and the
  store is unchanged. No response of the handler has a status other than 200.
\<close>

lemma getShipment_decoded:
  assumes "decodeURIComponent rt param = Some sid"
  shows "getShipment rt shipments param =
     Inr (\<lparr> statusCode = 200,
            resBody = ShipmentBody
              (case shipments_get shipments sid of
                 Some s \<Rightarrow> toShipmentView s
               | None \<Rightarrow> \<lparr> shipmentId = sid, orderId = js ''order-'' @ sid,
                            carrier = js ''ACME_SHIP'',
                            trackingNumber = makeTrackingNumber rt sid, status = IN_TRANSIT,
                            cancelledAt = None \<rparr>) \<rparr>,
          shipments, []) \<and>
     (\<forall>param' res st ns.
        getShipment rt shipments param' = Inr (res, st, ns) \<longrightarrow> statusCode res = 200)"
proof -
  have "statusCode res = 200" if "getShipment rt shipments param' = Inr (res, st, ns)"
    for param' res st ns
    using that by (auto simp: getShipment_def split: option.splits)
  then show ?thesis
    using assms
    by (simp add: getShipment_def getOrDefault_def buildDefaultShipment_def toShipmentView_def
        split: option.split)
qed

lemma getShipment_decoded_example:
  "decodeURIComponent sampleRuntime (js ''abc-def'') = Some (js ''abc-def'') \<and>
   getShipment sampleRuntime [] (js ''abc-def'') =
     Inr (\<lparr> statusCode = 200,
            resBody = ShipmentBody
              \<lparr> shipmentId = js ''abc-def'', orderId = js ''order-abc-def'',
                carrier = js ''ACME_SHIP'', trackingNumber = js ''TRK-ABCDEF'',
                status = IN_TRANSIT, cancelledAt = None \<rparr> \<rparr>,
          [], [])"
  using getShipment_decoded [where rt = sampleRuntime and param = "js ''abc-def''"
      and sid = "js ''abc-def''" and shipments = "[]"]
  by (simp add: sample_simps)

text \<open>
  C6. The claim promises, for every shipment id, the answer 200 of
  \<open>GET /shipments/:shipmentId\<close>, with the stored view or the synthesized default. The
  handler decodes the path parameter with \<open>decodeURIComponent\<close> and no guard. For the
  request \<open>GET /shipments/100%25\<close> the router hands the handler the parameter \<open>100%\<close>;
  \<open>decodeURIComponent\<close> throws on it, and the handler ends with a \<open>URIError\<close> instead
  of the response 200 the claim promises.
\<close>

theorem get_shipment_malformed_escape:
  "decodeURIComponent sampleRuntime (js ''100%'') = None \<and>
   getShipment sampleRuntime [] (js ''100%'') = Inl URIError"
  by (simp add: getShipment_def sampleRuntime_def js_def)

text \<open>
  When the path parameters of two cancellations decode to the same shipment id: both
  calls answer 200 with a view of status \<open>CANCELLED\<close>; the record stored after the first
  call has status \<open>CANCELLED\<close> and the first time stamp, the record stored after the
  second call has status \<open>CANCELLED\<close> and the time stamp of the second call, and its
  shipment id, order id, carrier and tracking number are those of the record after the
  first call.
\<close>

lemma cancelShipment_twice_decoded:
  assumes "decodeURIComponent rt param1 = Some sid"
    and "decodeURIComponent rt param2 = Some sid"
  shows "\<exists>res1 st1 ns1 res2 st2 ns2 r1 r2.
     cancelShipment rt shipments param1 t1 u1 = Inr (res1, st1, ns1) \<and>
     cancelShipment rt st1 param2 t2 u2 = Inr (res2, st2, ns2) \<and>
     statusCode res1 = 200 \<and> resBody res1 = ShipmentBody (toShipmentView r1) \<and>
     statusCode res2 = 200 \<and> resBody res2 = ShipmentBody (toShipmentView r2) \<and>
     shipments_get st1 sid = Some r1 \<and> shipments_get st2 sid = Some r2 \<and>
     status r1 = CANCELLED \<and> cancelledAt r1 = Some t1 \<and>
     status r2 = CANCELLED \<and> cancelledAt r2 = Some t2 \<and>
     shipmentId r2 = shipmentId r1 \<and> orderId r2 = orderId r1 \<and> carrier r2 = carrier r1 \<and>
     trackingNumber r2 = trackingNumber r1"
  using assms
  by (simp add: cancelShipment_def Let_def shipments_get_set getOrDefault_def)

lemma cancelShipment_twice_decoded_example:
  "decodeURIComponent sampleRuntime (js ''abc-def'') = Some (js ''abc-def'') \<and>
   (\<exists>res1 st1 ns1 res2 st2 ns2 r1 r2.
     cancelShipment sampleRuntime [] (js ''abc-def'') (js ''2024-01-02T10:00:00.000Z'') uuidA =
       Inr (res1, st1, ns1) \<and>
     cancelShipment sampleRuntime st1 (js ''abc-def'') (js ''2024-01-03T10:00:00.000Z'') uuidB =
       Inr (res2, st2, ns2) \<and>
     statusCode res1 = 200 \<and> resBody res1 = ShipmentBody (toShipmentView r1) \<and>
     statusCode res2 = 200 \<and> resBody res2 = ShipmentBody (toShipmentView r2) \<and>
     shipments_get st1 (js ''abc-def'') = Some r1 \<and> shipments_get st2 (js ''abc-def'') = Some r2 \<and>
     status r1 = CANCELLED \<and> cancelledAt r1 = Some (js ''2024-01-02T10:00:00.000Z'') \<and>
     status r2 = CANCELLED \<and> cancelledAt r2 = Some (js ''2024-01-03T10:00:00.000Z'') \<and>
     shipmentId r2 = shipmentId r1 \<and> orderId r2 = orderId r1 \<and> carrier r2 = carrier r1 \<and>
     trackingNumber r2 = trackingNumber r1)"
proof -
  have d: "decodeURIComponent sampleRuntime (js ''abc-def'') = Some (js ''abc-def'')"
    by (simp add: sampleRuntime_def js_def)
  show ?thesis
    using d cancelShipment_twice_decoded [OF d d, of "[]" "js ''2024-01-02T10:00:00.000Z''" uuidA
        "js ''2024-01-03T10:00:00.000Z''" uuidB]
    by blast
qed

text \<open>
  C7. The claim promises, for every shipment id, a record of status \<open>CANCELLED\<close> after
  each of two cancellations. The cancel handler decodes the path parameter with
  \<open>decodeURIComponent\<close> and no guard, as the other routes with a shipment id do. Two
  requests \<open>POST /shipments/100%25/cancel\<close> reach the handler with the parameter \<open>100%\<close>:
  both end with a \<open>URIError\<close>, no record is stored, no notification is published.
\<close>

theorem cancel_twice_malformed_escape:
  "serverRun sampleRuntime emptyServer
     [CancelShipment (js ''100%'') (js ''2024-01-02T10:00:00.000Z'') uuidA,
      CancelShipment (js ''100%'') (js ''2024-01-03T10:00:00.000Z'') uuidB] =
   \<lparr> sv_shipments = [], sv_publishers = [], sv_responses = [Inl URIError, Inl URIError],
     sv_replies = [], sv_failures = [] \<rparr>"
  by (simp add: serverRun_def respond_def cancelShipment_def emptyServer_def sampleRuntime_def
      js_def)

text \<open>
  C8. \<open>POST /shipments\<close>. When the body is an object whose \<open>orderId\<close> and
  \<open>destinationPostalCode\<close> are strings that are not empty after trimming, the answer is
  201 with a view of status \<open>CREATED\<close>, whose tracking number matches \<open>TRK-\<close> and
  twelve upper-case hexadecimal characters when the shipment id drawn is a UUID. In every
  other case (a field missing, empty or not a string, no body, a body that is no object,
  a body that cannot be parsed) the answer is 400 with an error object and the store is
  unchanged.
\<close>

theorem post_shipments_route:
  "((\<exists>fs ord dest. body = Parsed (Some (JObj fs)) \<and>
        map_of fs (js ''orderId'') = Some (JStr ord) \<and>
        map_of fs (js ''destinationPostalCode'') = Some (JStr dest) \<and>
        trim ord \<noteq> [] \<and> trim dest \<noteq> []) \<longrightarrow>
      (\<exists>view st ns. postShipmentsRoute rt shipments body uuid1 uuid2 =
           (\<lparr> statusCode = 201, resBody = ShipmentBody view \<rparr>, st, ns) \<and>
         status view = CREATED \<and>
         (isUUID uuid1 \<longrightarrow> matchesTrackingPattern (trackingNumber view)))) \<and>
   (\<not> (\<exists>fs ord dest. body = Parsed (Some (JObj fs)) \<and>
        map_of fs (js ''orderId'') = Some (JStr ord) \<and>
        map_of fs (js ''destinationPostalCode'') = Some (JStr dest) \<and>
        trim ord \<noteq> [] \<and> trim dest \<noteq> []) \<longrightarrow>
      (\<exists>message. postShipmentsRoute rt shipments body uuid1 uuid2 =
           (\<lparr> statusCode = 400, resBody = ErrorBody message \<rparr>, shipments, [])))"
proof (intro conjI impI)
  assume "\<exists>fs ord dest. body = Parsed (Some (JObj fs)) \<and>
        map_of fs (js ''orderId'') = Some (JStr ord) \<and>
        map_of fs (js ''destinationPostalCode'') = Some (JStr dest) \<and>
        trim ord \<noteq> [] \<and> trim dest \<noteq> []"
  then obtain fs ord dest where b: "body = Parsed (Some (JObj fs))"
    and o: "map_of fs (js ''orderId'') = Some (JStr ord)"
    and d: "map_of fs (js ''destinationPostalCode'') = Some (JStr dest)"
    and ne: "trim ord \<noteq> []" "trim dest \<noteq> []"
    by blast
  show "\<exists>view st ns. postShipmentsRoute rt shipments body uuid1 uuid2 =
           (\<lparr> statusCode = 201, resBody = ShipmentBody view \<rparr>, st, ns) \<and>
         status view = CREATED \<and>
         (isUUID uuid1 \<longrightarrow> matchesTrackingPattern (trackingNumber view))"
    using b o d ne
    by (simp add: postShipmentsRoute_def postShipments_def Let_def toShipmentView_def
        makeTrackingNumber_pattern)
next
  assume inv: "\<not> (\<exists>fs ord dest. body = Parsed (Some (JObj fs)) \<and>
        map_of fs (js ''orderId'') = Some (JStr ord) \<and>
        map_of fs (js ''destinationPostalCode'') = Some (JStr dest) \<and>
        trim ord \<noteq> [] \<and> trim dest \<noteq> [])"
  show "\<exists>message. postShipmentsRoute rt shipments body uuid1 uuid2 =
           (\<lparr> statusCode = 400, resBody = ErrorBody message \<rparr>, shipments, [])"
  proof (cases body)
    case Unparsable
    then show ?thesis by (simp add: postShipmentsRoute_def)
  next
    case (Parsed reqBody)
    define payload where
      "payload = (case reqBody of None \<Rightarrow> JObj [] | Some b \<Rightarrow> if truthy b then b else JObj [])"
    define ord where
      "ord = (case asString (getProp payload (js ''orderId'')) of Some s \<Rightarrow> trim s | None \<Rightarrow> [])"
    define dest where
      "dest = (case asString (getProp payload (js ''destinationPostalCode'')) of
                 Some s \<Rightarrow> trim s | None \<Rightarrow> [])"
    have "ord = [] \<or> dest = []"
    proof (rule ccontr)
      assume "\<not> (ord = [] \<or> dest = [])"
      then have o: "ord \<noteq> []" and d: "dest \<noteq> []" by simp_all
      from o obtain s1 where s1: "getProp payload (js ''orderId'') = Some (JStr s1)" "trim s1 \<noteq> []"
        by (auto simp: ord_def asString_Some split: option.splits)
      from d obtain s2 where s2: "getProp payload (js ''destinationPostalCode'') = Some (JStr s2)"
          "trim s2 \<noteq> []"
        by (auto simp: dest_def asString_Some split: option.splits)
      from s1 obtain fs where fs: "payload = JObj fs" by (cases payload) simp_all
      have "fs \<noteq> []" using s1 fs by auto
      then have "reqBody = Some (JObj fs)"
        using fs by (auto simp: payload_def split: option.splits if_splits)
      with inv Parsed s1 s2 fs show False by auto
    qed
    then show ?thesis
      using Parsed
      by (auto simp: postShipmentsRoute_def postShipments_def Let_def payload_def ord_def dest_def)
  qed
qed

theorem post_shipments_route_witness:
  "(\<exists>fs ord dest. sampleBody = Parsed (Some (JObj fs)) \<and>
        map_of fs (js ''orderId'') = Some (JStr ord) \<and>
        map_of fs (js ''destinationPostalCode'') = Some (JStr dest) \<and>
        trim ord \<noteq> [] \<and> trim dest \<noteq> []) \<and>
   isUUID uuidB \<and>
   (\<exists>view st ns. postShipmentsRoute sampleRuntime [] sampleBody uuidB uuidA =
        (\<lparr> statusCode = 201, resBody = ShipmentBody view \<rparr>, st, ns) \<and>
      status view = CREATED \<and> matchesTrackingPattern (trackingNumber view)) \<and>
   (\<nexists>fs ord dest. Unparsable = Parsed (Some (JObj fs)) \<and>
        map_of fs (js ''orderId'') = Some (JStr ord) \<and>
        map_of fs (js ''destinationPostalCode'') = Some (JStr dest) \<and>
        trim ord \<noteq> [] \<and> trim dest \<noteq> []) \<and>
   (\<exists>message. postShipmentsRoute sampleRuntime [] Unparsable uuidB uuidA =
        (\<lparr> statusCode = 400, resBody = ErrorBody message \<rparr>, [], [])) \<and>
   (\<nexists>fs ord dest. nbspBody = Parsed (Some (JObj fs)) \<and>
        map_of fs (js ''orderId'') = Some (JStr ord) \<and>
        map_of fs (js ''destinationPostalCode'') = Some (JStr dest) \<and>
        trim ord \<noteq> [] \<and> trim dest \<noteq> []) \<and>
   (\<exists>message. postShipmentsRoute sampleRuntime [] nbspBody uuidB uuidA =
        (\<lparr> statusCode = 400, resBody = ErrorBody message \<rparr>, [], []))"
proof -
  have valid: "\<exists>fs ord dest. sampleBody = Parsed (Some (JObj fs)) \<and>
        map_of fs (js ''orderId'') = Some (JStr ord) \<and>
        map_of fs (js ''destinationPostalCode'') = Some (JStr dest) \<and>
        trim ord \<noteq> [] \<and> trim dest \<noteq> []"
    by (simp add: sampleBody_def trim_def isWhiteSpace_def js_def)
  have uuid: "isUUID uuidB"
    by (simp add: isUUID_def isHexLower_def uuidB_def js_def)
  have invalid: "\<nexists>fs ord dest. Unparsable = Parsed (Some (JObj fs)) \<and>
        map_of fs (js ''orderId'') = Some (JStr ord) \<and>
        map_of fs (js ''destinationPostalCode'') = Some (JStr dest) \<and>
        trim ord \<noteq> [] \<and> trim dest \<noteq> []"
    by simp
  have blank: "\<nexists>fs ord dest. nbspBody = Parsed (Some (JObj fs)) \<and>
        map_of fs (js ''orderId'') = Some (JStr ord) \<and>
        map_of fs (js ''destinationPostalCode'') = Some (JStr dest) \<and>
        trim ord \<noteq> [] \<and> trim dest \<noteq> []"
    by (simp add: nbspBody_def trim_def isWhiteSpace_def js_def)
  show ?thesis
    using valid uuid invalid blank
      post_shipments_route [where body = sampleBody and rt = sampleRuntime and shipments = "[]"
        and ?uuid1.0 = uuidB and ?uuid2.0 = uuidA]
      post_shipments_route [where body = Unparsable and rt = sampleRuntime and shipments = "[]"
        and ?uuid1.0 = uuidB and ?uuid2.0 = uuidA]
      post_shipments_route [where body = nbspBody and rt = sampleRuntime and shipments = "[]"
        and ?uuid1.0 = uuidB and ?uuid2.0 = uuidA]
    by blast
qed

text \<open>
  When the path parameter decodes to a shipment id that is not in the store, the cancel
  route answers 200 and appends one record to the store under that id: status
  \<open>CANCELLED\<close>, \<open>cancelledAt\<close> stamped, order id \<open>order-\<close> followed by the id, carrier
  \<open>ACME_SHIP\<close>, tracking number derived from the id.
\<close>

lemma cancelShipment_unknown_decoded:
  assumes "decodeURIComponent rt param = Some sid"
    and "sid \<notin> set (shipments_keys shipments)"
  shows "cancelShipment rt shipments param now uuid1 =
     Inr (\<lparr> statusCode = 200,
            resBody = ShipmentBody
              \<lparr> shipmentId = sid, orderId = js ''order-'' @ sid, carrier = js ''ACME_SHIP'',
                trackingNumber = makeTrackingNumber rt sid, status = CANCELLED,
                cancelledAt = None \<rparr> \<rparr>,
          shipments @ [(sid, \<lparr> shipmentId = sid, orderId = js ''order-'' @ sid,
                               carrier = js ''ACME_SHIP'',
                               trackingNumber = makeTrackingNumber rt sid,
                               status = CANCELLED, cancelledAt = Some now \<rparr>)],
          [\<lparr> notificationId = uuid1, n_requestId = sid, n_title = js ''ShipmentCancelled'',
             n_body = js ''Shipment '' @ sid @ js '' cancelled'', n_priority = NORMAL \<rparr>])"
proof -
  have "shipments_get shipments sid = None"
    using assms(2) by (simp add: shipments_get_None)
  then show ?thesis
    using assms
    by (simp add: cancelShipment_def getOrDefault_def buildDefaultShipment_def
        toShipmentView_def shipments_set_fresh)
qed

lemma cancelShipment_unknown_decoded_example:
  "decodeURIComponent sampleRuntime (js ''stra'' @ [0xDF] @ js ''-e'') =
     Some (js ''stra'' @ [0xDF] @ js ''-e'') \<and>
   js ''stra'' @ [0xDF] @ js ''-e'' \<notin> set (shipments_keys []) \<and>
   cancelShipment sampleRuntime [] (js ''stra'' @ [0xDF] @ js ''-e'')
       (js ''2024-01-02T10:00:00.000Z'') uuidA =
     Inr (\<lparr> statusCode = 200,
            resBody = ShipmentBody
              \<lparr> shipmentId = js ''stra'' @ [0xDF] @ js ''-e'',
                orderId = js ''order-stra'' @ [0xDF] @ js ''-e'', carrier = js ''ACME_SHIP'',
                trackingNumber = js ''TRK-STRASSE'', status = CANCELLED,
                cancelledAt = None \<rparr> \<rparr>,
          [(js ''stra'' @ [0xDF] @ js ''-e'',
            \<lparr> shipmentId = js ''stra'' @ [0xDF] @ js ''-e'',
              orderId = js ''order-stra'' @ [0xDF] @ js ''-e'', carrier = js ''ACME_SHIP'',
              trackingNumber = js ''TRK-STRASSE'', status = CANCELLED,
              cancelledAt = Some (js ''2024-01-02T10:00:00.000Z'') \<rparr>)],
          [\<lparr> notificationId = uuidA, n_requestId = js ''stra'' @ [0xDF] @ js ''-e'',
             n_title = js ''ShipmentCancelled'',
             n_body = js ''Shipment stra'' @ [0xDF] @ js ''-e cancelled'',
             n_priority = NORMAL \<rparr>])"
  using cancelShipment_unknown_decoded [where rt = sampleRuntime
      and param = "js ''stra'' @ [0xDF] @ js ''-e''" and sid = "js ''stra'' @ [0xDF] @ js ''-e''"
      and shipments = "[]" and now = "js ''2024-01-02T10:00:00.000Z''" and ?uuid1.0 = uuidA]
  by (simp add: sample_simps)

text \<open>
  C10. The claim promises, for every shipment id that is not in the store, the answer 200
  of the cancel route and a new record under that id. The handler decodes the path
  parameter with \<open>decodeURIComponent\<close> and no guard. The request
  \<open>POST /shipments/100%25/cancel\<close> reaches the handler with the parameter \<open>100%\<close>, an
  id that is not in the store: the handler ends with a \<open>URIError\<close> and inserts nothing.
\<close>

theorem cancel_unknown_malformed_escape:
  "js ''100%'' \<notin> set (shipments_keys []) \<and>
   cancelShipment sampleRuntime [] (js ''100%'') (js ''2024-01-02T10:00:00.000Z'') uuidA =
     Inl URIError"
  by (simp add: cancelShipment_def shipments_keys_def sampleRuntime_def js_def)


section \<open>Tracking numbers of stored records\<close>

text \<open>
  C1, as the code has it. A record stored by \<open>POST /shipments\<close> carries the tracking
  number derived from its own shipment id. A record stored for an accepted dispatch command
  carries the tracking id of the reply, which is derived from an identifier drawn for the
  reply alone, not from the record's shipment id. Once a record is stored, no request,
  message or publisher turn changes its tracking number, as long as the shipment ids drawn
  later are new.
\<close>

theorem tracking_number_origin:
  "(postShipmentsRoute rt shipments body sid nid = (res, st, ns) \<and> statusCode res = 201 \<longrightarrow>
      (\<exists>r. shipments_get st sid = Some r \<and> shipmentId r = sid \<and>
           trackingNumber r = makeTrackingNumber rt (shipmentId r))) \<and>
   (eachMessage rt shipments' msg uuid1 now uuid2 uuid3 sendError = (st', [rec], failure) \<and>
    r_status (p_reply rec) = ACCEPTED \<longrightarrow>
      (\<exists>r. shipments_get st' uuid3 = Some r \<and> shipmentId r = uuid3 \<and>
           trackingNumber r = makeTrackingNumber rt uuid2 \<and>
           r_trackingId (p_reply rec) = Some (trackingNumber r))) \<and>
   (freshRun rt s evs \<and> shipments_get (sv_shipments s) k = Some r0 \<longrightarrow>
      (\<exists>r'. shipments_get (sv_shipments (serverRun rt s evs)) k = Some r' \<and>
           trackingNumber r' = trackingNumber r0))"
proof (intro conjI impI)
  assume "postShipmentsRoute rt shipments body sid nid = (res, st, ns) \<and> statusCode res = 201"
  then show "\<exists>r. shipments_get st sid = Some r \<and> shipmentId r = sid \<and>
           trackingNumber r = makeTrackingNumber rt (shipmentId r)"
    using postShipmentsRoute_effect [of rt shipments body sid nid res st ns]
    by (auto simp: shipments_get_set)
next
  assume "eachMessage rt shipments' msg uuid1 now uuid2 uuid3 sendError = (st', [rec], failure) \<and>
    r_status (p_reply rec) = ACCEPTED"
  then show "\<exists>r. shipments_get st' uuid3 = Some r \<and> shipmentId r = uuid3 \<and>
           trackingNumber r = makeTrackingNumber rt uuid2 \<and>
           r_trackingId (p_reply rec) = Some (trackingNumber r)"
    using eachMessage_effect [of rt shipments' msg uuid1 now uuid2 uuid3 sendError st' "[rec]" failure]
    by (auto simp: shipments_get_set)
next
  assume "freshRun rt s evs \<and> shipments_get (sv_shipments s) k = Some r0"
  then show "\<exists>r'. shipments_get (sv_shipments (serverRun rt s evs)) k = Some r' \<and>
           trackingNumber r' = trackingNumber r0"
    using run_keeps_tracking by blast
qed

theorem tracking_number_origin_witness:
  "statusCode (fst (postShipmentsRoute sampleRuntime [] sampleBody uuidB uuidA)) = 201 \<and>
   (\<exists>r. shipments_get (fst (snd (postShipmentsRoute sampleRuntime [] sampleBody uuidB uuidA))) uuidB = Some r \<and>
        shipmentId r = uuidB \<and>
        trackingNumber r = makeTrackingNumber sampleRuntime (shipmentId r)) \<and>
   fst (snd (eachMessage sampleRuntime [] (Some sampleOkText) uuidA (js ''2024-01-02T10:00:00.000Z'')
     uuidB uuidC None)) =
     [\<lparr> p_topic = js ''queue.order.fulfillment.reply'', p_key = js ''o-2'',
        p_reply = \<lparr> r_messageId = uuidA, r_requestId = js ''r1'', r_orderId = js ''o-2'',
                    r_status = ACCEPTED, r_repliedAt = js ''2024-01-02T10:00:00.000Z'',
                    r_trackingId = Some (js ''TRK-123E4567E89B''), r_rejectionReason = None \<rparr> \<rparr>] \<and>
   (\<exists>r. shipments_get (fst (eachMessage sampleRuntime [] (Some sampleOkText) uuidA
             (js ''2024-01-02T10:00:00.000Z'') uuidB uuidC None)) uuidC = Some r \<and>
        shipmentId r = uuidC \<and> trackingNumber r = makeTrackingNumber sampleRuntime uuidB \<and>
        Some (js ''TRK-123E4567E89B'') = Some (trackingNumber r)) \<and>
   freshRun sampleRuntime sampleServer
     [CancelShipment uuidC (js ''2024-01-03T10:00:00.000Z'') uuidA,
      KafkaMessage (Some sampleOkText) uuidA (js ''2024-01-04T10:00:00.000Z'') uuidB uuidA None] \<and>
   shipments_get (sv_shipments sampleServer) uuidC = Some sampleShipment \<and>
   (\<exists>r'. shipments_get (sv_shipments (serverRun sampleRuntime sampleServer
             [CancelShipment uuidC (js ''2024-01-03T10:00:00.000Z'') uuidA,
              KafkaMessage (Some sampleOkText) uuidA (js ''2024-01-04T10:00:00.000Z'') uuidB uuidA None]))
           uuidC = Some r' \<and>
         trackingNumber r' = trackingNumber sampleShipment)"
proof -
  let ?post = "postShipmentsRoute sampleRuntime [] sampleBody uuidB uuidA"
  let ?msg = "eachMessage sampleRuntime [] (Some sampleOkText) uuidA (js ''2024-01-02T10:00:00.000Z'')
     uuidB uuidC None"
  let ?rec = "\<lparr> p_topic = js ''queue.order.fulfillment.reply'', p_key = js ''o-2'',
        p_reply = \<lparr> r_messageId = uuidA, r_requestId = js ''r1'', r_orderId = js ''o-2'',
                    r_status = ACCEPTED, r_repliedAt = js ''2024-01-02T10:00:00.000Z'',
                    r_trackingId = Some (js ''TRK-123E4567E89B''), r_rejectionReason = None \<rparr> \<rparr>"
  let ?evs = "[CancelShipment uuidC (js ''2024-01-03T10:00:00.000Z'') uuidA,
      KafkaMessage (Some sampleOkText) uuidA (js ''2024-01-04T10:00:00.000Z'') uuidB uuidA None]"
  have p1: "?post = (fst ?post, fst (snd ?post), snd (snd ?post))" by simp
  have p2: "statusCode (fst ?post) = 201"
    by (simp add: postShipmentsRoute_def postShipments_def sampleBody_def trim_def
        isWhiteSpace_def Let_def js_def)
  have m1: "?msg = (fst ?msg, [?rec], snd (snd ?msg))"
    by (simp add: eachMessage_def isDispatchCommandEvent_def typeofString_def
        asDispatchCommandEvent_def buildFulfillmentReply_def orElse_def sample_simps)
  have m2: "r_status (p_reply ?rec) = ACCEPTED" by simp
  have f1: "freshRun sampleRuntime sampleServer ?evs"
    by (simp add: sampleServer_def emptyServer_def sampleShipment_def respond_def
        cancelShipment_def getOrDefault_def Let_def sample_simps)
  have f2: "shipments_get (sv_shipments sampleServer) uuidC = Some sampleShipment"
    by (simp add: sampleServer_def emptyServer_def shipments_get_def)
  have r: "fst (snd ?msg) = [?rec]" using m1 by (metis fst_conv snd_conv)
  show ?thesis
    using p1 p2 m1 m2 f1 f2 r
      tracking_number_origin [where shipments = "[]" and body = sampleBody and sid = uuidB
        and nid = uuidA and res = "fst ?post" and st = "fst (snd ?post)" and ns = "snd (snd ?post)"
        and rt = sampleRuntime and shipments' = "[]" and msg = "Some sampleOkText"
        and ?uuid1.0 = uuidA and now = "js ''2024-01-02T10:00:00.000Z''" and ?uuid2.0 = uuidB
        and ?uuid3.0 = uuidC and sendError = None and st' = "fst ?msg" and rec = ?rec
        and failure = "snd (snd ?msg)" and s = sampleServer and evs = ?evs and k = uuidC
        and ?r0.0 = sampleShipment]
    by simp
qed

text \<open>
  The claim as stated fails for the dispatch path: the record stored for an accepted
  command has a tracking number that is not the one derived from its shipment id.
\<close>

theorem dispatch_tracking_number_counterexample:
  "fst (eachMessage sampleRuntime [] (Some sampleOkText) uuidA (js ''2024-01-02T10:00:00.000Z'') uuidB uuidC None) =
     [(uuidC, \<lparr> shipmentId = uuidC, orderId = js ''o-2'', carrier = js ''ACME_SHIP'',
                 trackingNumber = js ''TRK-123E4567E89B'', status = CREATED, cancelledAt = None \<rparr>)] \<and>
   makeTrackingNumber sampleRuntime uuidC = js ''TRK-9B2F0C4E7A1D'' \<and>
   (js ''TRK-123E4567E89B'') \<noteq> makeTrackingNumber sampleRuntime uuidC"
  by (simp add: eachMessage_def isDispatchCommandEvent_def typeofString_def
      asDispatchCommandEvent_def buildFulfillmentReply_def orElse_def sample_simps)


section \<open>The notification publisher: properties\<close>

text \<open>
  C9. For every sequence of events of one publisher call, \<open>client.end\<close> has run exactly
  once as soon as the timer is no longer armed and not at all while it is; it has run
  exactly once after any sequence in which the timer fired, the client reported an error
  or the publish callback ran after the connect, however many of these edges occur. Every
  publisher call of the service has torn down at most once. The call hands no error to
  the handler: the responses and the store of the service are the same with and without
  the publisher turns, failures among them.
\<close>

theorem teardown_exactly_once:
  "endCalls (publisherRun rt (publishAnalyticsNotification event) evs) =
     (if timeoutArmed (publisherRun rt (publishAnalyticsNotification event) evs) then 0 else 1) \<and>
   (TimeoutFired \<in> set evs \<or> (\<exists>m. ClientError m \<in> set evs) \<or> acknowledged evs \<longrightarrow>
      endCalls (publisherRun rt (publishAnalyticsNotification event) evs) = 1) \<and>
   list_all (\<lambda>p. endCalls p \<le> 1) (sv_publishers (serverRun rt emptyServer sevs)) \<and>
   sv_responses (serverRun rt s sevs) =
     sv_responses (serverRun rt s (filter (\<lambda>e. \<not> isPublisherTurn e) sevs)) \<and>
   sv_shipments (serverRun rt s sevs) =
     sv_shipments (serverRun rt s (filter (\<lambda>e. \<not> isPublisherTurn e) sevs))"
proof -
  let ?p = "publisherRun rt (publishAnalyticsNotification event) evs"
  have inv: "publisherInv ?p"
    by (rule publisherInv_run [OF publisherInv_init])
  have one: "endCalls ?p = (if timeoutArmed ?p then 0 else 1)"
    using inv by (simp add: publisherInv_def)
  have edge: "endCalls ?p = 1"
    if "TimeoutFired \<in> set evs \<or> (\<exists>m. ClientError m \<in> set evs) \<or> acknowledged evs"
  proof -
    have "completed ?p"
      using that edge_completes [OF publisherInv_init, of evs rt event]
        acknowledged_completes [of "publishAnalyticsNotification event" evs rt]
      by (auto simp: publishAnalyticsNotification_def)
    then show ?thesis using inv by (simp add: publisherInv_def)
  qed
  have "list_all publisherInv (sv_publishers (serverRun rt emptyServer sevs))"
    by (rule run_publishers) (simp add: emptyServer_def)
  then have all: "list_all (\<lambda>p. endCalls p \<le> 1) (sv_publishers (serverRun rt emptyServer sevs))"
    by (auto simp: list_all_iff publisherInv_def)
  have "sameService (serverRun rt s sevs)
     (serverRun rt s (filter (\<lambda>e. \<not> isPublisherTurn e) sevs))"
    by (rule run_same) (simp add: sameService_def)
  then show ?thesis
    using one edge all by (simp add: sameService_def)
qed

theorem teardown_exactly_once_witness:
  "TimeoutFired \<in> set [Connected, ClientError (js ''ECONNREFUSED''), TimeoutFired, PublishCallback None] \<and>
   endCalls (publisherRun sampleRuntime (publishAnalyticsNotification sampleNotification)
     [Connected, ClientError (js ''ECONNREFUSED''), TimeoutFired, PublishCallback None]) = 1 \<and>
   sv_responses (serverRun sampleRuntime emptyServer
     [PostShipments sampleBody uuidB uuidA, PublisherTurn 0 (ClientError (js ''ECONNREFUSED'')),
      PublisherTurn 0 TimeoutFired]) =
   sv_responses (serverRun sampleRuntime emptyServer [PostShipments sampleBody uuidB uuidA])"
  using teardown_exactly_once [of sampleRuntime sampleNotification
      "[Connected, ClientError (js ''ECONNREFUSED''), TimeoutFired, PublishCallback None]"
      "[PostShipments sampleBody uuidB uuidA, PublisherTurn 0 (ClientError (js ''ECONNREFUSED'')),
        PublisherTurn 0 TimeoutFired]" emptyServer]
  by simp

end
